theory Spec2Isabelle
  imports Complex_Main "HOL-Library.AList"
begin

section \<open>Bucket algorithms of \<^verbatim>\<open>photonapi/limiter.py\<close>\<close>

text \<open>
  Timestamps are the values of \<^verbatim>\<open>time.monotonic()\<close>. They, and the token amounts of a
  token bucket, are Python floats; they are modelled as real numbers, so rounding is not
  part of the model. Every method that reads the clock takes the value it reads as its
  argument \<open>now\<close>. The locks of the source serialise the calls on one bucket; a call is
  therefore one function from the bucket before the call to the result and the bucket
  after it.
\<close>

subsection \<open>TokenBucket\<close>

record TokenBucket =
  capacity :: real
  tokens :: real
  refill_rate :: real
  last_refill :: real

text \<open>\<^verbatim>\<open>TokenBucket.__init__(capacity, refill_rate)\<close>, the clock reading \<open>now\<close>.\<close>

definition TokenBucket_init :: "real \<Rightarrow> real \<Rightarrow> real \<Rightarrow> TokenBucket" where
  "TokenBucket_init cap rate now =
     \<lparr>capacity = cap, tokens = cap, refill_rate = rate, last_refill = now\<rparr>"

text \<open>The refill that \<^verbatim>\<open>consume\<close> persists and \<^verbatim>\<open>remaining\<close> only projects.\<close>

definition refilled :: "real \<Rightarrow> TokenBucket \<Rightarrow> real" where
  "refilled now b =
     (let elapsed = now - last_refill b
      in min (capacity b) (tokens b + elapsed * refill_rate b))"

definition TokenBucket_consume :: "real \<Rightarrow> real \<Rightarrow> TokenBucket \<Rightarrow> bool \<times> TokenBucket" where
  "TokenBucket_consume now cost b =
     (let b1 = b\<lparr>tokens := refilled now b, last_refill := now\<rparr>
      in if tokens b1 \<ge> cost
         then (True, b1\<lparr>tokens := tokens b1 - cost\<rparr>)
         else (False, b1))"

definition TokenBucket_remaining :: "real \<Rightarrow> TokenBucket \<Rightarrow> real" where
  "TokenBucket_remaining now b = refilled now b"

text \<open>
  A sequence of \<^verbatim>\<open>consume\<close> calls, each with the clock reading of the call and its cost.
  The result is the list of buckets after each call, in call order.
\<close>

fun consume_trace :: "TokenBucket \<Rightarrow> (real \<times> real) list \<Rightarrow> TokenBucket list" where
  "consume_trace b [] = []"
| "consume_trace b ((now, cost) # calls) =
     (let b' = snd (TokenBucket_consume now cost b) in b' # consume_trace b' calls)"

text \<open>The clock is monotonic: no call reads a time before the previous reading.\<close>

fun clock_advances :: "real \<Rightarrow> real list \<Rightarrow> bool" where
  "clock_advances t [] = True"
| "clock_advances t (now # nows) = (t \<le> now \<and> clock_advances now nows)"

subsection \<open>FixedWindowCounter\<close>

record FixedWindowCounter =
  fw_limit :: int
  fw_window :: real
  fw_count :: int
  fw_window_start :: real

definition FixedWindowCounter_init :: "int \<Rightarrow> real \<Rightarrow> real \<Rightarrow> FixedWindowCounter" where
  "FixedWindowCounter_init lmt window_seconds now =
     \<lparr>fw_limit = lmt, fw_window = window_seconds, fw_count = 0, fw_window_start = now\<rparr>"

definition FixedWindowCounter_hit ::
  "real \<Rightarrow> int \<Rightarrow> FixedWindowCounter \<Rightarrow> bool \<times> FixedWindowCounter" where
  "FixedWindowCounter_hit now cost c =
     (let c1 = (if now - fw_window_start c \<ge> fw_window c
                then c\<lparr>fw_count := 0, fw_window_start := now\<rparr>
                else c)
      in if fw_count c1 + cost \<le> fw_limit c1
         then (True, c1\<lparr>fw_count := fw_count c1 + cost\<rparr>)
         else (False, c1))"

definition FixedWindowCounter_remaining :: "real \<Rightarrow> FixedWindowCounter \<Rightarrow> int" where
  "FixedWindowCounter_remaining now c =
     (if now - fw_window_start c \<ge> fw_window c then fw_limit c
      else max 0 (fw_limit c - fw_count c))"

definition FixedWindowCounter_reset_at :: "FixedWindowCounter \<Rightarrow> real" where
  "FixedWindowCounter_reset_at c = fw_window_start c + fw_window c"

subsection \<open>SlidingWindowCounter\<close>

record SlidingWindowCounter =
  sw_limit :: int
  sw_window :: real
  sw_hits :: "real list"

definition SlidingWindowCounter_init :: "int \<Rightarrow> real \<Rightarrow> SlidingWindowCounter" where
  "SlidingWindowCounter_init lmt window_seconds =
     \<lparr>sw_limit = lmt, sw_window = window_seconds, sw_hits = []\<rparr>"

text \<open>The comprehension \<^verbatim>\<open>[t for t in self._hits if t > cutoff]\<close> with \<^verbatim>\<open>cutoff = now - self.window\<close>.\<close>

definition kept :: "real \<Rightarrow> SlidingWindowCounter \<Rightarrow> real list" where
  "kept now c = (let cutoff = now - sw_window c in filter (\<lambda>t. t > cutoff) (sw_hits c))"

text \<open>
  \<^verbatim>\<open>hit\<close> stores the purged list before the test, so a failed call still drops the expired
  timestamps. \<^verbatim>\<open>range(cost)\<close> is empty for a cost below 1, which \<open>nat\<close> gives.
\<close>

definition SlidingWindowCounter_hit ::
  "real \<Rightarrow> int \<Rightarrow> SlidingWindowCounter \<Rightarrow> bool \<times> SlidingWindowCounter" where
  "SlidingWindowCounter_hit now cost c =
     (let c1 = c\<lparr>sw_hits := kept now c\<rparr>
      in if int (length (sw_hits c1)) + cost \<le> sw_limit c1
         then (True, c1\<lparr>sw_hits := sw_hits c1 @ replicate (nat cost) now\<rparr>)
         else (False, c1))"

definition SlidingWindowCounter_remaining :: "real \<Rightarrow> SlidingWindowCounter \<Rightarrow> int" where
  "SlidingWindowCounter_remaining now c =
     (let current = int (length (kept now c)) in max 0 (sw_limit c - current))"

text \<open>\<^verbatim>\<open>reset_at\<close> reads the stored list as it is: it does not purge.\<close>

definition SlidingWindowCounter_reset_at :: "real \<Rightarrow> SlidingWindowCounter \<Rightarrow> real" where
  "SlidingWindowCounter_reset_at now c =
     (case sw_hits c of
        [] \<Rightarrow> now + sw_window c
      | t # _ \<Rightarrow> t + sw_window c)"

text \<open>
  A sequence of \<^verbatim>\<open>hit\<close> calls, each with its clock reading and cost: the counter after the
  last call, and the timestamps the calls recorded (one per unit of cost of every
  successful call), in the order they were appended.
\<close>

fun hit_all :: "SlidingWindowCounter \<Rightarrow> (real \<times> int) list \<Rightarrow> SlidingWindowCounter" where
  "hit_all c [] = c"
| "hit_all c ((now, cost) # calls) = hit_all (snd (SlidingWindowCounter_hit now cost c)) calls"

fun recorded :: "SlidingWindowCounter \<Rightarrow> (real \<times> int) list \<Rightarrow> real list" where
  "recorded c [] = []"
| "recorded c ((now, cost) # calls) =
     (let (ok, c') = SlidingWindowCounter_hit now cost c
      in (if ok then replicate (nat cost) now else []) @ recorded c' calls)"

text \<open>The recorded hits in the interval \<open>(t - window, t]\<close>.\<close>

definition in_window :: "real \<Rightarrow> real \<Rightarrow> real list \<Rightarrow> real list" where
  "in_window window t hits = filter (\<lambda>x. t - window < x \<and> x \<le> t) hits"

subsection \<open>Invariants used in the proofs\<close>

definition tb_inv :: "TokenBucket \<Rightarrow> bool" where
  "tb_inv b \<longleftrightarrow> 0 \<le> tokens b \<and> tokens b \<le> capacity b \<and> 0 \<le> refill_rate b"

definition sw_inv :: "real \<Rightarrow> SlidingWindowCounter \<Rightarrow> real list \<Rightarrow> bool" where
  "sw_inv T c rec \<longleftrightarrow>
     (\<forall>x \<in> set rec. x \<le> T) \<and> sorted rec \<and>
     (\<forall>cut \<ge> T - sw_window c. filter (\<lambda>x. cut < x) (sw_hits c) = filter (\<lambda>x. cut < x) rec)"

definition appended :: "real \<Rightarrow> int \<Rightarrow> SlidingWindowCounter \<Rightarrow> real list" where
  "appended now cost c = (if fst (SlidingWindowCounter_hit now cost c) then replicate (nat cost) now else [])"

text \<open>With a positive window, every stored hit is younger than the window at the last call.\<close>

definition stored_fresh :: "real \<Rightarrow> SlidingWindowCounter \<Rightarrow> bool" where
  "stored_fresh T c \<longleftrightarrow> (\<forall>x \<in> set (sw_hits c). T - sw_window c < x)"

section \<open>Middleware pipeline of \<^verbatim>\<open>photonapi/middleware.py\<close>\<close>

text \<open>
  A middleware is called as \<^verbatim>\<open>mw(req, res, next_mw)\<close> and a handler as
  \<^verbatim>\<open>final_handler(req, res)\<close>. Everything they may mutate (the request and response
  objects, a log) is the state \<open>'s\<close>, passed in and returned with the result \<open>'r\<close>. The
  continuation \<^verbatim>\<open>next_mw()\<close> runs the rest of the chain from the state in which it is
  called. A middleware is any function of its continuation: it may call it never, once
  or several times. Exceptions are not modelled.

  \<^verbatim>\<open>execute\<close> is the local function of \<^verbatim>\<open>MiddlewarePipeline.run\<close>; \<^verbatim>\<open>chain\<close>, \<^verbatim>\<open>req\<close>,
  \<^verbatim>\<open>res\<close> and \<^verbatim>\<open>final_handler\<close>, which it reads from the enclosing scope, are arguments
  here. The flag \<^verbatim>\<open>called_next\<close> is only read by a test whose two branches both return
  \<^verbatim>\<open>result\<close>, so it is left out.
\<close>

type_synonym ('q, 'p, 's, 'r) handler = "'q \<Rightarrow> 'p \<Rightarrow> 's \<Rightarrow> 'r \<times> 's"

type_synonym ('q, 'p, 's, 'r) middleware = "'q \<Rightarrow> 'p \<Rightarrow> ('s \<Rightarrow> 'r \<times> 's) \<Rightarrow> 's \<Rightarrow> 'r \<times> 's"

function execute ::
  "('q, 'p, 's, 'r) middleware list \<Rightarrow> ('q, 'p, 's, 'r) handler \<Rightarrow> 'q \<Rightarrow> 'p \<Rightarrow> nat \<Rightarrow> 's \<Rightarrow> 'r \<times> 's" where
  "execute chain final_handler req res index =
     (if index \<ge> length chain then final_handler req res
      else (let mw = chain ! index;
                next_mw = execute chain final_handler req res (index + 1)
            in mw req res next_mw))"
  by pat_completeness auto
termination
  by (relation "measure (\<lambda>(chain, final_handler, req, res, index). length chain - index)") auto

definition MiddlewarePipeline_add ::
  "('q, 'p, 's, 'r) middleware list \<Rightarrow> ('q, 'p, 's, 'r) middleware \<Rightarrow> ('q, 'p, 's, 'r) middleware list" where
  "MiddlewarePipeline_add stack middleware = stack @ [middleware]"

definition MiddlewarePipeline_run ::
  "('q, 'p, 's, 'r) middleware list \<Rightarrow> 'q \<Rightarrow> 'p \<Rightarrow> ('q, 'p, 's, 'r) handler \<Rightarrow> 's \<Rightarrow> 'r \<times> 's" where
  "MiddlewarePipeline_run stack req res final_handler =
     (let chain = stack in execute chain final_handler req res 0)"

text \<open>
  The middlewares and the handler of the ordering property: the state is the log, a list
  of lines. A logging middleware writes its \<open>enter\<close> line, calls its continuation, writes
  its \<open>exit\<close> line and returns the continuation's result.
\<close>

definition logs_around :: "string \<Rightarrow> ('q, 'p, string list, 'r) middleware" where
  "logs_around name req res next_mw out =
     (let out1 = out @ [name @ ''-enter''];
          (result, out2) = next_mw out1
      in (result, out2 @ [name @ ''-exit'']))"

definition logs_handle :: "'r \<Rightarrow> ('q, 'p, string list, 'r) handler" where
  "logs_handle result req res out = (result, out @ [''handle''])"

text \<open>
  A middleware that never invokes its continuation, whatever the request, the response
  and the state: what it returns and what it does to the state do not depend on the
  continuation it is handed.
\<close>

definition ignores_next :: "('q, 'p, 's, 'r) middleware \<Rightarrow> bool" where
  "ignores_next mw \<longleftrightarrow> (\<forall>req res k k'. mw req res k = mw req res k')"

text \<open>
  A middleware that returns without invoking its continuation in the run at hand: for
  this request and response, entered in this state, what it returns and what it does to
  the state do not depend on the continuation it is handed.
\<close>

definition skips_next :: "('q, 'p, 's, 'r) middleware \<Rightarrow> 'q \<Rightarrow> 'p \<Rightarrow> 's \<Rightarrow> bool" where
  "skips_next mw req res s \<longleftrightarrow> (\<forall>k k'. mw req res k s = mw req res k' s)"


section \<open>Rate strings: \<^verbatim>\<open>_parse_rate\<close> of \<^verbatim>\<open>photonapi/limiter.py\<close>\<close>

text \<open>
  A Python string is modelled as a list of characters with code points below 256.
  \<open>isspace\<close> is \<^verbatim>\<open>str.isspace\<close> on these code points, \<open>strip\<close> is \<^verbatim>\<open>str.strip()\<close>, \<open>lower\<close> is
  \<^verbatim>\<open>str.lower()\<close> and \<open>split\<close> is \<^verbatim>\<open>str.split(sep)\<close> for a separator of one character.
\<close>

definition isspace :: "char \<Rightarrow> bool" where
  "isspace c = (let n = (of_char c :: nat)
                in (9 \<le> n \<and> n \<le> 13) \<or> (28 \<le> n \<and> n \<le> 32) \<or> n = 133 \<or> n = 160)"

definition strip :: "string \<Rightarrow> string" where
  "strip s = rev (dropWhile isspace (rev (dropWhile isspace s)))"

definition lower_char :: "char \<Rightarrow> char" where
  "lower_char c = (let n = (of_char c :: nat)
                   in if (65 \<le> n \<and> n \<le> 90) \<or> (192 \<le> n \<and> n \<le> 222 \<and> n \<noteq> 215)
                      then char_of (n + 32) else c)"

definition lower :: "string \<Rightarrow> string" where
  "lower s = map lower_char s"

fun split :: "char \<Rightarrow> string \<Rightarrow> string list" where
  "split sep [] = [[]]"
| "split sep (c # cs) =
     (let parts = split sep cs
      in if c = sep then [] # parts else (c # hd parts) # tl parts)"

text \<open>
  \<^verbatim>\<open>int(s)\<close> in base 10: surrounding whitespace, an optional sign, and decimal digits
  with single underscores between digits. It raises \<^verbatim>\<open>ValueError\<close> on anything else, and
  on more than 4300 digits (the default \<^verbatim>\<open>sys.int_info.default_max_str_digits\<close> of
  CPython). The whitespace \<^verbatim>\<open>int\<close> skips is not that of \<^verbatim>\<open>str.isspace\<close>: the separators
  U+001C to U+001F are not skipped, so \<^verbatim>\<open>int("5\x1f")\<close> raises.
\<close>

definition int_space :: "char \<Rightarrow> bool" where
  "int_space c = (let n = (of_char c :: nat)
                  in (9 \<le> n \<and> n \<le> 13) \<or> n = 32 \<or> n = 133 \<or> n = 160)"

definition int_strip :: "string \<Rightarrow> string" where
  "int_strip s = rev (dropWhile int_space (rev (dropWhile int_space s)))"

definition max_str_digits :: nat where
  "max_str_digits = 4300"

definition isdigit :: "char \<Rightarrow> bool" where
  "isdigit c = (let n = (of_char c :: nat) in 48 \<le> n \<and> n \<le> 57)"

definition digit_value :: "char \<Rightarrow> nat" where
  "digit_value c = of_char c - 48"

fun digit_groups :: "string \<Rightarrow> bool" where
  "digit_groups [] = False"
| "digit_groups [c] = isdigit c"
| "digit_groups (c # d # cs) =
     (isdigit c \<and> (if d = CHR ''_'' then digit_groups cs else digit_groups (d # cs)))"

definition decimal :: "string \<Rightarrow> nat" where
  "decimal ds = foldl (\<lambda>acc c. 10 * acc + digit_value c) 0 ds"

text \<open>
  The exceptions of the model. \<open>ValueError\<close> is raised by \<^verbatim>\<open>int\<close> and by \<^verbatim>\<open>_parse_rate\<close>,
  \<open>ZeroDivisionError\<close> and \<open>OverflowError\<close> by the division \<^verbatim>\<open>limit / window\<close>;
  \<open>Server_error\<close> stands for whatever the \<^verbatim>\<open>start_response\<close> callable of the WSGI server
  raises when it refuses a status or a header.
\<close>

datatype value_error =
  Invalid_rate_format | Invalid_int_literal | Int_digits_exceeded | Unknown_time_period

datatype py_error = ValueError value_error | ZeroDivisionError | OverflowError | Server_error

definition py_int :: "string \<Rightarrow> py_error + int" where
  "py_int s =
     (let t = int_strip s;
          (negative, body) =
            (case t of
               [] \<Rightarrow> (False, t)
             | c # cs \<Rightarrow> if c = CHR ''-'' then (True, cs)
                         else if c = CHR ''+'' then (False, cs) else (False, t))
      in if digit_groups body
         then (let ds = filter (\<lambda>c. c \<noteq> CHR ''_'') body
               in if length ds > max_str_digits then Inl (ValueError Int_digits_exceeded)
                  else (let n = int (decimal ds) in Inr (if negative then - n else n)))
         else Inl (ValueError Invalid_int_literal))"

text \<open>\<^verbatim>\<open>str(i)\<close> of an integer.\<close>

fun digits_of :: "nat \<Rightarrow> string" where
  "digits_of n = (if n < 10 then [char_of (48 + n)] else digits_of (n div 10) @ [char_of (48 + n mod 10)])"

definition str_int :: "int \<Rightarrow> string" where
  "str_int i = (if i < 0 then CHR ''-'' # digits_of (nat (- i)) else digits_of (nat i))"

text \<open>
  \<^verbatim>\<open>_parse_rate\<close>. The two \<^verbatim>\<open>raise ValueError\<close> statements and the two inside \<^verbatim>\<open>int\<close> are the
  four \<open>value_error\<close> results.
\<close>

definition multipliers :: "(string \<times> int) list" where
  "multipliers =
     [(''s'', 1), (''sec'', 1), (''second'', 1),
      (''m'', 60), (''min'', 60), (''minute'', 60),
      (''h'', 3600), (''hr'', 3600), (''hour'', 3600),
      (''d'', 86400), (''day'', 86400)]"

definition parse_rate :: "string \<Rightarrow> py_error + (int \<times> int)" where
  "parse_rate rate_string =
     (let parts = split CHR ''/'' (strip rate_string)
      in if length parts \<noteq> 2 then Inl (ValueError Invalid_rate_format)
         else (case py_int (parts ! 0) of
                 Inl e \<Rightarrow> Inl e
               | Inr count \<Rightarrow>
                   (let period = lower (strip (parts ! 1))
                    in (case map_of multipliers period of
                          None \<Rightarrow> Inl (ValueError Unknown_time_period)
                        | Some m \<Rightarrow> Inr (count, m)))))"


section \<open>Response of \<^verbatim>\<open>photonapi/response.py\<close>\<close>

text \<open>
  The body that \<^verbatim>\<open>res.json(data)\<close> stores is \<^verbatim>\<open>json.dumps(data)\<close>; the model keeps the data
  itself. \<^verbatim>\<open>_headers\<close> is a dict: an association list updated in place.
\<close>

datatype json = JString string | JInt int | JObject "(string \<times> json) list"

datatype content = Body_str string | Body_json json

record Response =
  body :: content
  status_code :: int
  headers :: "(string \<times> string) list"
  cookies :: "string list"

definition Response_init :: Response where
  "Response_init =
     \<lparr>body = Body_str [], status_code = 200,
      headers = [(''Content-Type'', ''text/html'')], cookies = []\<rparr>"

definition status_phrases :: "(int \<times> string) list" where
  "status_phrases =
     [(200, ''OK''), (201, ''Created''), (204, ''No Content''),
      (301, ''Moved Permanently''), (302, ''Found''), (304, ''Not Modified''),
      (400, ''Bad Request''), (401, ''Unauthorized''), (403, ''Forbidden''),
      (404, ''Not Found''), (405, ''Method Not Allowed''), (409, ''Conflict''),
      (429, ''Too Many Requests''),
      (500, ''Internal Server Error''), (502, ''Bad Gateway''), (503, ''Service Unavailable'')]"

definition Response_status :: "Response \<Rightarrow> string" where
  "Response_status res =
     (let phrase = (case map_of status_phrases (status_code res) of
                      None \<Rightarrow> ''Unknown'' | Some p \<Rightarrow> p)
      in str_int (status_code res) @ '' '' @ phrase)"

definition set_header :: "Response \<Rightarrow> string \<Rightarrow> string \<Rightarrow> Response" where
  "set_header res key v = res\<lparr>headers := AList.update key v (headers res)\<rparr>"

definition Response_json :: "Response \<Rightarrow> json \<Rightarrow> int \<Rightarrow> Response" where
  "Response_json res data status =
     res\<lparr>body := Body_json data, status_code := status,
         headers := AList.update ''Content-Type'' ''application/json; charset=utf-8'' (headers res)\<rparr>"

definition build_headers :: "Response \<Rightarrow> (string \<times> string) list" where
  "build_headers res = headers res @ map (\<lambda>cookie. (''Set-Cookie'', cookie)) (cookies res)"

text \<open>
  \<^verbatim>\<open>as_wsgi\<close> calls \<^verbatim>\<open>start_response(self.status, self.build_headers())\<close> and returns the
  body. \<^verbatim>\<open>start_response\<close> is the callable of the WSGI server, outside the repository: it
  is an argument, a predicate that tells whether the server accepts the status line and
  the headers; when it does not, the call raises and \<^verbatim>\<open>as_wsgi\<close> with it. The reply is
  what the server was handed, with the body.
\<close>

type_synonym start_response = "string \<Rightarrow> (string \<times> string) list \<Rightarrow> bool"

record wsgi_reply =
  reply_status :: string
  reply_headers :: "(string \<times> string) list"
  reply_body :: content

definition as_wsgi :: "Response \<Rightarrow> start_response \<Rightarrow> py_error + wsgi_reply" where
  "as_wsgi res start_response =
     (if start_response (Response_status res) (build_headers res)
      then Inr \<lparr>reply_status = Response_status res, reply_headers = build_headers res,
                reply_body = body res\<rparr>
      else Inl Server_error)"

section \<open>RateLimiter of \<^verbatim>\<open>photonapi/limiter.py\<close>\<close>

text \<open>
  The request is any type \<open>'q\<close>; the limiter only applies callbacks to it. The callbacks
  (\<^verbatim>\<open>key_func\<close>, a callable \<^verbatim>\<open>cost\<close>, a callable message, \<^verbatim>\<open>rate_func\<close>) are total functions;
  \<^verbatim>\<open>on_exceeded\<close>, whose result is not used, is left out. The Redis server is outside
  the repository: \<^verbatim>\<open>redis_limiter\<close> holds the reply of the server to the pipeline
  \<^verbatim>\<open>INCR window_key; EXPIRE window_key\<close>, as a function of the key (\<open>None\<close> when the
  pipeline raises). A wrapped handler \<^verbatim>\<open>fn\<close> is not run by the model: a wrapper returns
  \<open>Handler_called\<close> with the response and the limiter at the moment it calls \<^verbatim>\<open>fn\<close>, or
  \<open>Rate_exceeded\<close> with the response \<^verbatim>\<open>_rate_exceeded\<close> built. One request reads the
  monotonic clock as \<open>now\<close> and the wall clock as \<open>wall\<close>.

  The model covers the calls whose arguments have the annotated types: a \<^verbatim>\<open>cost\<close> is an
  integer or a function to integers (a float cost raises \<^verbatim>\<open>TypeError\<close> in \<^verbatim>\<open>range(cost)\<close>
  of the sliding window, which the model does not have). The exceptions of a wrapper that
  the model has are those of \<^verbatim>\<open>_parse_rate\<close> and of the division \<^verbatim>\<open>limit / window\<close> in
  \<^verbatim>\<open>_get_bucket\<close>; \<^verbatim>\<open>str\<close> of a header value is total here, while Python refuses an
  integer of more than 4300 digits. No property below states that a wrapper raises nothing.
\<close>

datatype bucket = Token TokenBucket | Fixed FixedWindowCounter | Sliding SlidingWindowCounter

datatype 'q message = Msg_str string | Msg_fn "'q \<Rightarrow> string"

datatype 'q cost_spec = Cost_const int | Cost_fn "'q \<Rightarrow> int"

datatype outcome = Handler_called | Rate_exceeded

record 'q RateLimiter =
  key_func :: "'q \<Rightarrow> string"
  strategy :: string
  headers_enabled :: bool
  enabled :: bool
  buckets :: "string \<rightharpoonup> bucket"
  route_limits :: "string \<rightharpoonup> (int \<times> int \<times> string)"
  redis_limiter :: "(string \<Rightarrow> int option) option"
  whitelist :: "string set"
  blacklist :: "string set"

definition RateLimiter_init ::
  "('q \<Rightarrow> string) \<Rightarrow> string \<Rightarrow> bool \<Rightarrow> bool \<Rightarrow> (string \<Rightarrow> int option) option
     \<Rightarrow> 'q RateLimiter" where
  "RateLimiter_init kf strat hdrs en redis_client =
     \<lparr>key_func = kf, strategy = strat, headers_enabled = hdrs, enabled = en,
      buckets = Map.empty, route_limits = Map.empty, redis_limiter = redis_client,
      whitelist = {}, blacklist = {}\<rparr>"

definition whitelist_key :: "'q RateLimiter \<Rightarrow> string \<Rightarrow> 'q RateLimiter" where
  "whitelist_key L key = L\<lparr>whitelist := insert key (whitelist L)\<rparr>"

definition blacklist_key :: "'q RateLimiter \<Rightarrow> string \<Rightarrow> 'q RateLimiter" where
  "blacklist_key L key = L\<lparr>blacklist := insert key (blacklist L)\<rparr>"

text \<open>Python's \<^verbatim>\<open>int(x)\<close> of a float: truncation towards zero.\<close>

definition py_trunc :: "real \<Rightarrow> int" where
  "py_trunc x = (if 0 \<le> x then \<lfloor>x\<rfloor> else \<lceil>x\<rceil>)"

text \<open>
  \<^verbatim>\<open>RedisRateLimiter.check\<close>: every exception, the division by a zero window included, is
  caught and answered with \<^verbatim>\<open>(True, limit)\<close>.
\<close>

definition RedisRateLimiter_check ::
  "(string \<Rightarrow> int option) \<Rightarrow> real \<Rightarrow> string \<Rightarrow> int \<Rightarrow> int \<Rightarrow> bool \<times> int" where
  "RedisRateLimiter_check redis wall key lmt window =
     (if window = 0 then (True, lmt)
      else (let window_key = ''rl:'' @ key @ '':'' @ str_int \<lfloor>wall / real_of_int window\<rfloor>
            in (case redis window_key of
                  None \<Rightarrow> (True, lmt)
                | Some current \<Rightarrow> (current \<le> lmt, max 0 (lmt - current)))))"

text \<open>The f-string \<^verbatim>\<open>f"{key}:{scope}"\<close> of \<^verbatim>\<open>_get_bucket\<close>.\<close>

definition bucket_key :: "string \<Rightarrow> string \<Rightarrow> string" where
  "bucket_key key scope = key @ '':'' @ scope"

text \<open>
  The true division of two integers raises \<^verbatim>\<open>OverflowError\<close> when the quotient does not
  round to a finite float: when its absolute value is at least \<open>2^1024 - 2^970\<close>, half a
  unit in the last place above the largest float.
\<close>

definition float_overflow :: "real \<Rightarrow> bool" where
  "float_overflow x \<longleftrightarrow> \<bar>x\<bar> \<ge> 2 ^ 1024 - 2 ^ 970"

text \<open>
  \<^verbatim>\<open>_get_bucket\<close> returns the bucket stored under the key, creating it first when the key
  is new. \<^verbatim>\<open>limit / window\<close> raises for a zero window and for a quotient too large for a
  float.
\<close>

definition get_bucket ::
  "'q RateLimiter \<Rightarrow> string \<Rightarrow> string \<Rightarrow> int \<Rightarrow> int \<Rightarrow> real
     \<Rightarrow> py_error + (bucket \<times> 'q RateLimiter)" where
  "get_bucket L key scope lmt window now =
     (let bk = bucket_key key scope
      in (case buckets L bk of
            Some b \<Rightarrow> Inr (b, L)
          | None \<Rightarrow>
              if strategy L = ''token-bucket''
              then (if window = 0 then Inl ZeroDivisionError
                    else if float_overflow (real_of_int lmt / real_of_int window)
                    then Inl OverflowError
                    else (let b = Token (TokenBucket_init (real_of_int lmt)
                                          (real_of_int lmt / real_of_int window) now)
                          in Inr (b, L\<lparr>buckets := (buckets L)(bk \<mapsto> b)\<rparr>)))
              else if strategy L = ''fixed-window''
              then (let b = Fixed (FixedWindowCounter_init lmt (real_of_int window) now)
                    in Inr (b, L\<lparr>buckets := (buckets L)(bk \<mapsto> b)\<rparr>))
              else (let b = Sliding (SlidingWindowCounter_init lmt (real_of_int window))
                    in Inr (b, L\<lparr>buckets := (buckets L)(bk \<mapsto> b)\<rparr>))))"

text \<open>
  A bucket is an object shared with the map; the model writes the bucket back under its
  key after \<^verbatim>\<open>hit\<close> or \<^verbatim>\<open>consume\<close> has changed it.
\<close>

definition store_bucket :: "'q RateLimiter \<Rightarrow> string \<Rightarrow> bucket \<Rightarrow> 'q RateLimiter" where
  "store_bucket L bk b = L\<lparr>buckets := (buckets L)(bk \<mapsto> b)\<rparr>"

text \<open>
  \<^verbatim>\<open>_rate_exceeded\<close> sets the status code to 429 and then calls \<^verbatim>\<open>res.json(data)\<close>, whose
  default \<^verbatim>\<open>status=200\<close> is stored as the status code. A token bucket has no \<^verbatim>\<open>reset_at\<close>.
\<close>

definition rate_exceeded ::
  "'q \<Rightarrow> Response \<Rightarrow> bucket option \<Rightarrow> int \<Rightarrow> 'q message option \<Rightarrow> real \<Rightarrow> Response" where
  "rate_exceeded req res bkt lmt custom_message now =
     (let msg = (case custom_message of
                   None \<Rightarrow> ''Rate limit exceeded''
                 | Some (Msg_str m) \<Rightarrow> if m = [] then ''Rate limit exceeded'' else m
                 | Some (Msg_fn f) \<Rightarrow> f req);
          res1 = res\<lparr>status_code := 429\<rparr>;
          retry_after =
            (case bkt of
               Some (Sliding c) \<Rightarrow> max 1 (py_trunc (SlidingWindowCounter_reset_at now c - now))
             | Some (Fixed c) \<Rightarrow> max 1 (py_trunc (FixedWindowCounter_reset_at c - now))
             | _ \<Rightarrow> 60);
          res2 = set_header res1 ''Retry-After'' (str_int retry_after)
      in Response_json res2
           (JObject [(''error'', JString msg), (''limit'', JInt lmt),
                     (''retry_after'', JInt retry_after)])
           200)"

type_synonym 'q wrapper =
  "'q RateLimiter \<Rightarrow> 'q \<Rightarrow> Response \<Rightarrow> real \<Rightarrow> real
     \<Rightarrow> py_error + (outcome \<times> Response \<times> 'q RateLimiter)"

text \<open>The \<^verbatim>\<open>wrapper\<close> that \<^verbatim>\<open>RateLimiter.limit\<close> puts around a handler.\<close>

definition limit_wrapper ::
  "int \<Rightarrow> int \<Rightarrow> ('q \<Rightarrow> string) option \<Rightarrow> 'q cost_spec \<Rightarrow> 'q message option \<Rightarrow> string
     \<Rightarrow> 'q wrapper" where
  "limit_wrapper count window key_func_arg cost error_message fn_scope L req res now wall =
     (if \<not> enabled L then Inr (Handler_called, res, L)
      else
        let kfn = (case key_func_arg of Some k \<Rightarrow> k | None \<Rightarrow> key_func L);
            client_key = kfn req
        in if client_key \<in> whitelist L then Inr (Handler_called, res, L)
        else if client_key \<in> blacklist L
        then Inr (Rate_exceeded,
                  rate_exceeded req res None count (Some (Msg_str ''Access denied'')) now, L)
        else
          let res1 = (if headers_enabled L
                      then set_header res ''X-RateLimit-Limit'' (str_int count) else res)
          in (case redis_limiter L of
                Some redis \<Rightarrow>
                  let (allowed, remaining) =
                        RedisRateLimiter_check redis wall (client_key @ '':'' @ fn_scope) count window;
                      res2 = (if headers_enabled L
                              then set_header res1 ''X-RateLimit-Remaining'' (str_int remaining)
                              else res1)
                  in if \<not> allowed
                     then Inr (Rate_exceeded, rate_exceeded req res2 None count error_message now, L)
                     else Inr (Handler_called, res2, L)
              | None \<Rightarrow>
                  (case get_bucket L client_key fn_scope count window now of
                     Inl e \<Rightarrow> Inl e
                   | Inr (bkt, L1) \<Rightarrow>
                       let bk = bucket_key client_key fn_scope;
                           actual_cost = (case cost of Cost_fn f \<Rightarrow> f req | Cost_const c \<Rightarrow> c)
                       in (case bkt of
                             Sliding c \<Rightarrow>
                               let (ok, c') = SlidingWindowCounter_hit now actual_cost c;
                                   L2 = store_bucket L1 bk (Sliding c')
                               in if \<not> ok
                                  then Inr (Rate_exceeded,
                                            rate_exceeded req res1 (Some (Sliding c')) count error_message now,
                                            L2)
                                  else Inr (Handler_called,
                                            (if headers_enabled L
                                             then set_header
                                                    (set_header res1 ''X-RateLimit-Remaining''
                                                       (str_int (SlidingWindowCounter_remaining now c')))
                                                    ''X-RateLimit-Reset''
                                                    (str_int (py_trunc (SlidingWindowCounter_reset_at now c')))
                                             else res1),
                                            L2)
                           | Fixed c \<Rightarrow>
                               let (ok, c') = FixedWindowCounter_hit now actual_cost c;
                                   L2 = store_bucket L1 bk (Fixed c')
                               in if \<not> ok
                                  then Inr (Rate_exceeded,
                                            rate_exceeded req res1 (Some (Fixed c')) count error_message now,
                                            L2)
                                  else Inr (Handler_called,
                                            (if headers_enabled L
                                             then set_header
                                                    (set_header res1 ''X-RateLimit-Remaining''
                                                       (str_int (FixedWindowCounter_remaining now c')))
                                                    ''X-RateLimit-Reset''
                                                    (str_int (py_trunc (FixedWindowCounter_reset_at c')))
                                             else res1),
                                            L2)
                           | Token b \<Rightarrow>
                               let (ok, b') = TokenBucket_consume now (real_of_int actual_cost) b;
                                   L2 = store_bucket L1 bk (Token b')
                               in if \<not> ok
                                  then Inr (Rate_exceeded,
                                            rate_exceeded req res1 (Some (Token b')) count error_message now,
                                            L2)
                                  else Inr (Handler_called,
                                            (if headers_enabled L
                                             then set_header res1 ''X-RateLimit-Remaining''
                                                    (str_int (py_trunc (TokenBucket_remaining now b')))
                                             else res1),
                                            L2)))))"

text \<open>The \<^verbatim>\<open>wrapper\<close> of \<^verbatim>\<open>RateLimiter.shared_limit\<close>: no blacklist test and no headers.\<close>

definition shared_limit_wrapper ::
  "int \<Rightarrow> int \<Rightarrow> string \<Rightarrow> ('q \<Rightarrow> string) option \<Rightarrow> 'q cost_spec \<Rightarrow> 'q wrapper" where
  "shared_limit_wrapper count window scope_name key_func_arg cost L req res now wall =
     (if \<not> enabled L then Inr (Handler_called, res, L)
      else
        let kfn = (case key_func_arg of Some k \<Rightarrow> k | None \<Rightarrow> key_func L);
            client_key = kfn req
        in if client_key \<in> whitelist L then Inr (Handler_called, res, L)
        else
          (case redis_limiter L of
             Some redis \<Rightarrow>
               let (allowed, remaining) =
                     RedisRateLimiter_check redis wall (client_key @ '':'' @ scope_name) count window
               in if \<not> allowed
                  then Inr (Rate_exceeded, rate_exceeded req res None count None now, L)
                  else Inr (Handler_called, res, L)
           | None \<Rightarrow>
               (case get_bucket L client_key scope_name count window now of
                  Inl e \<Rightarrow> Inl e
                | Inr (bkt, L1) \<Rightarrow>
                    let bk = bucket_key client_key scope_name;
                        actual_cost = (case cost of Cost_fn f \<Rightarrow> f req | Cost_const c \<Rightarrow> c)
                    in (case bkt of
                          Sliding c \<Rightarrow>
                            let (ok, c') = SlidingWindowCounter_hit now actual_cost c;
                                L2 = store_bucket L1 bk (Sliding c')
                            in if \<not> ok
                               then Inr (Rate_exceeded,
                                         rate_exceeded req res (Some (Sliding c')) count None now, L2)
                               else Inr (Handler_called, res, L2)
                        | Fixed c \<Rightarrow>
                            let (ok, c') = FixedWindowCounter_hit now actual_cost c;
                                L2 = store_bucket L1 bk (Fixed c')
                            in if \<not> ok
                               then Inr (Rate_exceeded,
                                         rate_exceeded req res (Some (Fixed c')) count None now, L2)
                               else Inr (Handler_called, res, L2)
                        | Token b \<Rightarrow>
                            let (ok, b') = TokenBucket_consume now (real_of_int actual_cost) b;
                                L2 = store_bucket L1 bk (Token b')
                            in if \<not> ok
                               then Inr (Rate_exceeded,
                                         rate_exceeded req res (Some (Token b')) count None now, L2)
                               else Inr (Handler_called, res, L2)))))"

text \<open>
  The \<^verbatim>\<open>wrapper\<close> of \<^verbatim>\<open>RateLimiter.dynamic\<close>: the rate string is computed from the request
  and parsed in the wrapper; the key is always \<^verbatim>\<open>self.key_func(req)\<close>; the cost is the
  default 1. Neither list of keys is consulted.
\<close>

definition dynamic_wrapper :: "('q \<Rightarrow> string) \<Rightarrow> string \<Rightarrow> 'q wrapper" where
  "dynamic_wrapper rate_func fn_name L req res now wall =
     (if \<not> enabled L then Inr (Handler_called, res, L)
      else
        let rate_string = rate_func req
        in (case parse_rate rate_string of
              Inl e \<Rightarrow> Inl e
            | Inr (count, window) \<Rightarrow>
                let client_key = key_func L req;
                    scope = fn_name
                in (case get_bucket L client_key scope count window now of
                      Inl e \<Rightarrow> Inl e
                    | Inr (bkt, L1) \<Rightarrow>
                        let bk = bucket_key client_key scope
                        in (case bkt of
                              Sliding c \<Rightarrow>
                                let (ok, c') = SlidingWindowCounter_hit now 1 c;
                                    L2 = store_bucket L1 bk (Sliding c')
                                in if \<not> ok
                                   then Inr (Rate_exceeded,
                                             rate_exceeded req res (Some (Sliding c')) count None now, L2)
                                   else Inr (Handler_called, res, L2)
                            | Fixed c \<Rightarrow>
                                let (ok, c') = FixedWindowCounter_hit now 1 c;
                                    L2 = store_bucket L1 bk (Fixed c')
                                in if \<not> ok
                                   then Inr (Rate_exceeded,
                                             rate_exceeded req res (Some (Fixed c')) count None now, L2)
                                   else Inr (Handler_called, res, L2)
                            | Token b \<Rightarrow>
                                let (ok, b') = TokenBucket_consume now 1 b;
                                    L2 = store_bucket L1 bk (Token b')
                                in if \<not> ok
                                   then Inr (Rate_exceeded,
                                             rate_exceeded req res (Some (Token b')) count None now, L2)
                                   else Inr (Handler_called, res, L2)))))"

text \<open>
  Route registration: what the calls \<^verbatim>\<open>limiter.limit(rate_string, ...)(fn)\<close>,
  \<^verbatim>\<open>limiter.shared_limit(rate_string, scope_name, ...)(fn)\<close> and \<^verbatim>\<open>limiter.dynamic(rate_func)(fn)\<close>
  evaluate when a route is decorated: an error, or the limiter after the registration
  with the wrapper that serves the requests. \<open>fn_name\<close> is \<^verbatim>\<open>f"{fn.__module__}.{fn.__name__}"\<close>.
\<close>

definition RateLimiter_limit ::
  "'q RateLimiter \<Rightarrow> string \<Rightarrow> ('q \<Rightarrow> string) option \<Rightarrow> 'q cost_spec \<Rightarrow> 'q message option
     \<Rightarrow> string option \<Rightarrow> string \<Rightarrow> py_error + ('q RateLimiter \<times> 'q wrapper)" where
  "RateLimiter_limit L rate_string key_func_arg cost error_message scope fn_name =
     (case parse_rate rate_string of
        Inl e \<Rightarrow> Inl e
      | Inr (count, window) \<Rightarrow>
          let fn_scope = (case scope of
                            None \<Rightarrow> fn_name
                          | Some s \<Rightarrow> if s = [] then fn_name else s);
              L' = L\<lparr>route_limits := (route_limits L)(fn_scope \<mapsto> (count, window, rate_string))\<rparr>
          in Inr (L', limit_wrapper count window key_func_arg cost error_message fn_scope))"

definition RateLimiter_shared_limit ::
  "'q RateLimiter \<Rightarrow> string \<Rightarrow> string \<Rightarrow> ('q \<Rightarrow> string) option \<Rightarrow> 'q cost_spec
     \<Rightarrow> py_error + ('q RateLimiter \<times> 'q wrapper)" where
  "RateLimiter_shared_limit L rate_string scope_name key_func_arg cost =
     (case parse_rate rate_string of
        Inl e \<Rightarrow> Inl e
      | Inr (count, window) \<Rightarrow>
          Inr (L, shared_limit_wrapper count window scope_name key_func_arg cost))"

definition RateLimiter_dynamic ::
  "'q RateLimiter \<Rightarrow> ('q \<Rightarrow> string) \<Rightarrow> string \<Rightarrow> py_error + ('q RateLimiter \<times> 'q wrapper)" where
  "RateLimiter_dynamic L rate_func fn_name = Inr (L, dynamic_wrapper rate_func fn_name)"

section \<open>Request entry of \<^verbatim>\<open>photonapi/app.py\<close>\<close>

text \<open>
  \<^verbatim>\<open>Request.__init__\<close> of \<^verbatim>\<open>photonapi/request.py\<close>. The WSGI environment is a dict; the
  model keeps its string entries. Every attribute is a lookup with a default, except
  \<^verbatim>\<open>content_length = int(environ.get("CONTENT_LENGTH") or 0)\<close>, which raises \<^verbatim>\<open>ValueError\<close> when
  the entry is a non-empty string that is not an integer literal. \<^verbatim>\<open>method\<close>, the
  upper-cased \<^verbatim>\<open>REQUEST_METHOD\<close>, is left out: \<^verbatim>\<open>str.upper\<close> cannot raise, and it maps some
  code points below 256 to code points above.
\<close>

record Request =
  rq_environ :: "string \<rightharpoonup> string"
  rq_path :: string
  rq_query_string :: string
  rq_content_type :: string
  rq_content_length :: int
  rq_host :: string
  rq_scheme :: string
  rq_remote_addr :: string

definition environ_get :: "(string \<rightharpoonup> string) \<Rightarrow> string \<Rightarrow> string \<Rightarrow> string" where
  "environ_get environ key dflt = (case environ key of None \<Rightarrow> dflt | Some v \<Rightarrow> v)"

definition Request_init :: "(string \<rightharpoonup> string) \<Rightarrow> py_error + Request" where
  "Request_init environ =
     (case (case environ ''CONTENT_LENGTH'' of
              None \<Rightarrow> Inr 0
            | Some s \<Rightarrow> if s = [] then Inr 0 else py_int s) of
        Inl e \<Rightarrow> Inl e
      | Inr n \<Rightarrow>
          Inr \<lparr>rq_environ = environ,
               rq_path = environ_get environ ''PATH_INFO'' ''/'',
               rq_query_string = environ_get environ ''QUERY_STRING'' [],
               rq_content_type = environ_get environ ''CONTENT_TYPE'' [],
               rq_content_length = n,
               rq_host = environ_get environ ''HTTP_HOST'' ''localhost'',
               rq_scheme = environ_get environ ''wsgi.url_scheme'' ''http'',
               rq_remote_addr = environ_get environ ''REMOTE_ADDR'' ''127.0.0.1''\<rparr>)"

text \<open>
  \<^verbatim>\<open>PhotonAPI.__call__(environ, start_response)\<close> for one request. Of the application
  object the model keeps the flag \<^verbatim>\<open>_shutting_down\<close> and the counter \<^verbatim>\<open>_active_requests\<close>.
  \<^verbatim>\<open>Request(environ)\<close> is built first, before the counter and the flag are touched: when it
  raises, nothing else happens. The state of the middleware pipeline is the response
  object together with whatever else middlewares and handlers mutate (\<open>'u\<close>).
  \<^verbatim>\<open>_serve_static\<close>, which reads the file system, and the local function \<^verbatim>\<open>dispatch\<close> (route
  resolution, hooks and the route handler) are arguments, as is the \<^verbatim>\<open>start_response\<close> of
  the server; exceptions of middlewares and handlers are not modelled. The result of a
  handler is a \<^verbatim>\<open>StreamResponse\<close> or anything else. The \<^verbatim>\<open>finally\<close> clause runs on every path
  of the \<^verbatim>\<open>try\<close> block, also when \<^verbatim>\<open>start_response\<close> raises. \<open>counter_writes\<close> lists the
  values assigned to \<^verbatim>\<open>_active_requests\<close> during the call, in order, and \<open>started\<close> is the
  status line and the headers \<^verbatim>\<open>start_response\<close> was called with.
\<close>

record PhotonAPI =
  shutting_down :: bool
  active_requests :: int

record StreamResponse =
  sr_status :: int
  sr_content_type :: string
  sr_headers :: "(string \<times> string) list"
  sr_chunks :: "string list"

datatype 'a handler_result = Stream StreamResponse | Other 'a

datatype reply = Wsgi wsgi_reply | Streamed string "(string \<times> string) list" StreamResponse

record 'u call_result =
  outcome :: "py_error + reply"
  started :: "(string \<times> (string \<times> string) list) option"
  app_after :: PhotonAPI
  state_after :: 'u
  counter_writes :: "int list"

definition hop_by_hop :: "string list" where
  "hop_by_hop =
     [''connection'', ''keep-alive'', ''proxy-authenticate'', ''proxy-authorization'',
      ''te'', ''trailers'', ''transfer-encoding'', ''upgrade'']"

text \<open>The statement \<^verbatim>\<open>return res.as_wsgi(start_response)\<close>.\<close>

definition respond ::
  "Response \<Rightarrow> start_response \<Rightarrow> (py_error + reply) \<times> (string \<times> (string \<times> string) list) option" where
  "respond res start_response =
     (map_sum id Wsgi (as_wsgi res start_response),
      Some (Response_status res, build_headers res))"

definition PhotonAPI_call ::
  "(Request \<Rightarrow> Response \<Rightarrow> bool \<times> Response)
     \<Rightarrow> (Request, unit, Response \<times> 'u, 'a handler_result) middleware list
     \<Rightarrow> (Request, unit, Response \<times> 'u, 'a handler_result) handler
     \<Rightarrow> start_response \<Rightarrow> PhotonAPI \<Rightarrow> (string \<rightharpoonup> string) \<Rightarrow> 'u \<Rightarrow> 'u call_result" where
  "PhotonAPI_call serve_static stack dispatch start_response app environ u =
     (case Request_init environ of
        Inl e \<Rightarrow>
          \<lparr>outcome = Inl e, started = None, app_after = app, state_after = u,
           counter_writes = []\<rparr>
      | Inr req \<Rightarrow>
          (let res = Response_init;
               app1 = app\<lparr>active_requests := active_requests app + 1\<rparr>;
               ((out, call), u') =
                 (if shutting_down app1
                  then (let res1 = Response_json res
                                     (JObject [(''error'', JString ''Server is shutting down'')]) 503;
                            res2 = set_header res1 ''Connection'' ''close''
                        in (respond res2 start_response, u))
                  else (case serve_static req res of
                          (True, res1) \<Rightarrow> (respond res1 start_response, u)
                        | (False, res1) \<Rightarrow>
                            (let (result, (res2, u2)) =
                                   MiddlewarePipeline_run stack req () dispatch (res1, u)
                             in (case result of
                                   Stream sr \<Rightarrow>
                                     (let status_line = str_int (sr_status sr) @ '' OK'';
                                          hdrs = (''Content-Type'', sr_content_type sr)
                                                 # filter (\<lambda>(k, v). lower k \<notin> set hop_by_hop)
                                                     (sr_headers sr)
                                      in (((if start_response status_line hdrs
                                            then Inr (Streamed status_line hdrs sr)
                                            else Inl Server_error),
                                           Some (status_line, hdrs)), u2))
                                 | Other x \<Rightarrow> (respond res2 start_response, u2)))));
               app2 = app1\<lparr>active_requests := active_requests app1 - 1\<rparr>
           in \<lparr>outcome = out, started = call, app_after = app2, state_after = u',
               counter_writes = [active_requests app1, active_requests app2]\<rparr>))"

text \<open>
  A \<^verbatim>\<open>start_response\<close> that refuses hop-by-hop headers, as the one of the standard
  library's \<^verbatim>\<open>wsgiref\<close> server does when assertions are on (\<^verbatim>\<open>run\<close> starts that server).
\<close>

definition refuses_hop_by_hop :: start_response where
  "refuses_hop_by_hop status hdrs = list_all (\<lambda>(k, v). lower k \<notin> set hop_by_hop) hdrs"

section \<open>Properties of the token bucket\<close>

lemma refilled_le_capacity: "refilled now b \<le> capacity b"
  by (simp add: refilled_def Let_def)

lemma refilled_nonneg:
  assumes "0 \<le> capacity b" "0 \<le> tokens b" "0 \<le> refill_rate b" "last_refill b \<le> now"
  shows "0 \<le> refilled now b"
proof -
  have "0 \<le> (now - last_refill b) * refill_rate b"
    using assms by simp
  then show ?thesis
    using assms by (simp add: refilled_def Let_def)
qed

lemma consume_fields [simp]:
  "capacity (snd (TokenBucket_consume now cost b)) = capacity b"
  "refill_rate (snd (TokenBucket_consume now cost b)) = refill_rate b"
  "last_refill (snd (TokenBucket_consume now cost b)) = now"
  by (simp_all add: TokenBucket_consume_def Let_def)

lemma consume_tokens:
  "tokens (snd (TokenBucket_consume now cost b)) =
     (if cost \<le> refilled now b then refilled now b - cost else refilled now b)"
  by (simp add: TokenBucket_consume_def Let_def)

lemma consume_success: "fst (TokenBucket_consume now cost b) \<longleftrightarrow> cost \<le> refilled now b"
  by (simp add: TokenBucket_consume_def Let_def)

text \<open>The bounds one call keeps, each with only the hypotheses it needs.\<close>

lemma consume_le_capacity:
  assumes "0 \<le> cost"
  shows "tokens (snd (TokenBucket_consume now cost b)) \<le> capacity b"
  using assms refilled_le_capacity [of now b] by (simp add: consume_tokens)

lemma consume_nonneg:
  assumes "0 \<le> capacity b" "0 \<le> tokens b" "0 \<le> refill_rate b" "last_refill b \<le> now"
  shows "0 \<le> tokens (snd (TokenBucket_consume now cost b))"
  using refilled_nonneg [OF assms] by (simp add: consume_tokens)

lemma tb_inv_init: "0 \<le> cap \<Longrightarrow> 0 \<le> rate \<Longrightarrow> tb_inv (TokenBucket_init cap rate t0)"
  by (simp add: tb_inv_def TokenBucket_init_def)

lemma tb_inv_consume:
  assumes "tb_inv b" "last_refill b \<le> now" "0 \<le> cost"
  shows "tb_inv (snd (TokenBucket_consume now cost b))"
proof -
  have cap: "0 \<le> capacity b" using assms(1) by (simp add: tb_inv_def)
  have "0 \<le> tokens (snd (TokenBucket_consume now cost b))"
    using assms cap by (intro consume_nonneg) (simp_all add: tb_inv_def)
  moreover have "tokens (snd (TokenBucket_consume now cost b)) \<le> capacity b"
    using assms(3) by (rule consume_le_capacity)
  ultimately show ?thesis
    using assms(1) by (simp add: tb_inv_def)
qed

lemma consume_trace_inv:
  assumes "tb_inv b" "clock_advances (last_refill b) (map fst calls)"
    "\<forall>c \<in> set calls. 0 \<le> snd c"
  shows "\<forall>b' \<in> set (consume_trace b calls). tb_inv b' \<and> capacity b' = capacity b"
  using assms
proof (induction calls arbitrary: b)
  case Nil
  then show ?case by simp
next
  case (Cons call calls)
  obtain now cost where call: "call = (now, cost)" by (cases call)
  let ?b' = "snd (TokenBucket_consume now cost b)"
  have step: "tb_inv ?b'"
    using Cons.prems call by (intro tb_inv_consume) simp_all
  have "\<forall>x \<in> set (consume_trace ?b' calls). tb_inv x \<and> capacity x = capacity ?b'"
    using Cons.prems call step by (intro Cons.IH) simp_all
  then show ?case
    using step call by (simp add: Let_def)
qed

text \<open>
  Claim C1 (token bucket conservation), as amended. A bucket is created with a capacity
  and a refill rate that are not negative, and receives any sequence of \<^verbatim>\<open>consume\<close> calls
  whose costs are not negative, under a clock that never runs backwards. Then after every
  call the tokens are at least 0 and at most the capacity, which never changes. For any
  bucket whatever, a failed \<^verbatim>\<open>consume\<close> leaves exactly the refilled amount of tokens.
\<close>

theorem token_bucket_conservation:
  assumes "0 \<le> cap" "0 \<le> rate"
    and "clock_advances t0 (map fst calls)"
    and "\<forall>c \<in> set calls. 0 \<le> snd c"
  shows "(\<forall>b \<in> set (consume_trace (TokenBucket_init cap rate t0) calls).
            0 \<le> tokens b \<and> tokens b \<le> capacity b \<and> capacity b = cap)
       \<and> (\<not> fst (TokenBucket_consume now cost bk) \<longrightarrow>
            tokens (snd (TokenBucket_consume now cost bk)) = refilled now bk)"
proof -
  let ?b0 = "TokenBucket_init cap rate t0"
  have "tb_inv ?b0"
    using assms(1,2) by (rule tb_inv_init)
  moreover have "clock_advances (last_refill ?b0) (map fst calls)"
    using assms(3) by (simp add: TokenBucket_init_def)
  ultimately have "\<forall>b \<in> set (consume_trace ?b0 calls). tb_inv b \<and> capacity b = capacity ?b0"
    using assms(4) by (rule consume_trace_inv)
  then have "\<forall>b \<in> set (consume_trace ?b0 calls).
      0 \<le> tokens b \<and> tokens b \<le> capacity b \<and> capacity b = cap"
    by (auto simp add: tb_inv_def TokenBucket_init_def)
  moreover have "\<not> fst (TokenBucket_consume now cost bk) \<longrightarrow>
      tokens (snd (TokenBucket_consume now cost bk)) = refilled now bk"
    by (simp add: consume_success consume_tokens)
  ultimately show ?thesis by blast
qed

text \<open>
  A bucket of capacity 10 refilling one token per second: a call of cost 3 at time 1,
  a call of cost 20 at time 2 (it fails, and the 7 tokens become 8 by the refill alone)
  and a call of cost 4 at time 5.
\<close>

theorem token_bucket_conservation_witness:
  "map tokens (consume_trace (TokenBucket_init 10 1 0) [(1, 3), (2, 20), (5, 4)]) = [7, 8, 6]
   \<and> list_all (\<lambda>b. 0 \<le> tokens b \<and> tokens b \<le> capacity b \<and> capacity b = 10)
        (consume_trace (TokenBucket_init 10 1 0) [(1, 3), (2, 20), (5, 4)])
   \<and> \<not> fst (TokenBucket_consume 2 20 (TokenBucket_init 10 1 0))
   \<and> tokens (snd (TokenBucket_consume 2 20 (TokenBucket_init 10 1 0))) = 10"
  using token_bucket_conservation [of 10 1 0 "[(1, 3), (2, 20), (5, 4)]" 2 20 "TokenBucket_init 10 1 0"]
  by (simp add: list_all_iff TokenBucket_consume_def TokenBucket_init_def refilled_def Let_def)

text \<open>
  The claim as stated covers every cost. A negative cost passes the test
  \<^verbatim>\<open>self.tokens >= cost\<close> and is subtracted: a full bucket of capacity 10 holds 15 tokens
  after \<^verbatim>\<open>consume(-5)\<close>.
\<close>

theorem token_bucket_negative_cost_counterexample:
  "tokens (snd (TokenBucket_consume 1 (- 5) (TokenBucket_init 10 1 0))) = 15
   \<and> capacity (snd (TokenBucket_consume 1 (- 5) (TokenBucket_init 10 1 0))) = 10"
  by (simp add: TokenBucket_consume_def TokenBucket_init_def refilled_def Let_def)

section \<open>Properties of the fixed window counter\<close>

text \<open>
  Claim C3 (fixed window reset and success condition). When \<open>now - window_start \<ge> window\<close>
  the call sets \<open>window_start\<close> to \<open>now\<close> and applies the cost against a count of 0;
  otherwise the window start stays and the cost is applied against the stored count. In
  both cases the call succeeds exactly when that count plus the cost is at most the limit,
  a success adds the cost to that count and a failure leaves that count as it is.
\<close>

theorem fixed_window_hit:
  fixes c :: FixedWindowCounter and now :: real and cost :: int
  defines "r \<equiv> FixedWindowCounter_hit now cost c"
  shows "(now - fw_window_start c \<ge> fw_window c \<longrightarrow>
            fw_window_start (snd r) = now
          \<and> (fst r \<longleftrightarrow> 0 + cost \<le> fw_limit c)
          \<and> fw_count (snd r) = (if fst r then 0 + cost else 0))
       \<and> (\<not> now - fw_window_start c \<ge> fw_window c \<longrightarrow>
            fw_window_start (snd r) = fw_window_start c
          \<and> (fst r \<longleftrightarrow> fw_count c + cost \<le> fw_limit c)
          \<and> fw_count (snd r) = (if fst r then fw_count c + cost else fw_count c))
       \<and> fw_limit (snd r) = fw_limit c \<and> fw_window (snd r) = fw_window c"
  by (simp add: r_def FixedWindowCounter_hit_def Let_def)

text \<open>
  A counter with limit 3 and window 60 that started at time 5. At time 70 the window has
  passed: a full counter accepts a cost of 2 against count 0. At time 64 it has not: a
  count of 2 refuses a cost of 2 and keeps its state.
\<close>

theorem fixed_window_hit_witness:
  "FixedWindowCounter_hit 70 2 \<lparr>fw_limit = 3, fw_window = 60, fw_count = 3, fw_window_start = 5\<rparr>
     = (True, \<lparr>fw_limit = 3, fw_window = 60, fw_count = 2, fw_window_start = 70\<rparr>)
   \<and> FixedWindowCounter_hit 64 2 \<lparr>fw_limit = 3, fw_window = 60, fw_count = 2, fw_window_start = 5\<rparr>
     = (False, \<lparr>fw_limit = 3, fw_window = 60, fw_count = 2, fw_window_start = 5\<rparr>)"
  using fixed_window_hit [of "\<lparr>fw_limit = 3, fw_window = 60, fw_count = 3, fw_window_start = 5\<rparr>" 70 2]
    fixed_window_hit [of "\<lparr>fw_limit = 3, fw_window = 60, fw_count = 2, fw_window_start = 5\<rparr>" 64 2]
  by (simp add: FixedWindowCounter_hit_def)

section \<open>Properties of the sliding window counter\<close>

lemma hit_fields [simp]:
  "sw_limit (snd (SlidingWindowCounter_hit now cost c)) = sw_limit c"
  "sw_window (snd (SlidingWindowCounter_hit now cost c)) = sw_window c"
  by (simp_all add: SlidingWindowCounter_hit_def Let_def)

lemma hit_success:
  "fst (SlidingWindowCounter_hit now cost c) \<longleftrightarrow> int (length (kept now c)) + cost \<le> sw_limit c"
  by (simp add: SlidingWindowCounter_hit_def Let_def)

lemma hit_hits:
  "sw_hits (snd (SlidingWindowCounter_hit now cost c)) = kept now c @ appended now cost c"
  by (simp add: SlidingWindowCounter_hit_def appended_def Let_def)

lemma recorded_Cons:
  "recorded c ((now, cost) # calls) =
     appended now cost c @ recorded (snd (SlidingWindowCounter_hit now cost c)) calls"
  by (simp add: appended_def split: prod.splits)

lemma set_appended: "x \<in> set (appended now cost c) \<Longrightarrow> x = now"
  by (auto simp: appended_def split: if_splits)

lemma sorted_appended: "sorted (appended now cost c)"
  by (simp add: appended_def sorted_replicate)

lemma sw_inv_hit:
  assumes "sw_inv T c rec" "T \<le> now"
  shows "sw_inv now (snd (SlidingWindowCounter_hit now cost c)) (rec @ appended now cost c)"
proof -
  have le: "\<forall>x \<in> set (rec @ appended now cost c). x \<le> now"
    using assms by (auto simp: sw_inv_def dest: set_appended)
  have srt: "sorted (rec @ appended now cost c)"
    using assms by (auto simp: sw_inv_def sorted_append sorted_appended dest!: set_appended)
  have flt: "filter (\<lambda>x. cut < x) (kept now c) = filter (\<lambda>x. cut < x) rec"
    if "now - sw_window c \<le> cut" for cut
  proof -
    have "filter (\<lambda>x. cut < x) (kept now c) = filter (\<lambda>x. cut < x) (sw_hits c)"
      using that by (auto simp: kept_def Let_def intro: filter_cong)
    also have "\<dots> = filter (\<lambda>x. cut < x) rec"
      using assms that by (simp add: sw_inv_def)
    finally show ?thesis .
  qed
  show ?thesis
    unfolding sw_inv_def using le srt flt by (simp add: hit_hits)
qed

lemma sw_inv_hit_all:
  assumes "sw_inv T c rec" "clock_advances T (map fst calls)"
  shows "sw_inv (last (T # map fst calls)) (hit_all c calls) (rec @ recorded c calls)"
  using assms
proof (induction calls arbitrary: T c rec)
  case Nil
  then show ?case by simp
next
  case (Cons call calls)
  obtain now cost where call: "call = (now, cost)" by (cases call)
  let ?c' = "snd (SlidingWindowCounter_hit now cost c)"
  have now: "T \<le> now" and rest: "clock_advances now (map fst calls)"
    using Cons.prems(2) call by simp_all
  have "sw_inv now ?c' (rec @ appended now cost c)"
    using Cons.prems(1) now by (rule sw_inv_hit)
  then have "sw_inv (last (now # map fst calls)) (hit_all ?c' calls)
      ((rec @ appended now cost c) @ recorded ?c' calls)"
    using rest by (rule Cons.IH)
  then show ?case
    unfolding call by (simp add: recorded_Cons del: recorded.simps)
qed

lemma sw_inv_init: "sw_inv T (SlidingWindowCounter_init lmt w) []"
  by (simp add: sw_inv_def SlidingWindowCounter_init_def)

lemma hit_all_fields [simp]:
  "sw_limit (hit_all c calls) = sw_limit c"
  "sw_window (hit_all c calls) = sw_window c"
  by (induction c calls rule: hit_all.induct) simp_all

lemma clock_advances_append:
  "clock_advances T (xs @ [t]) \<longleftrightarrow> clock_advances T xs \<and> last (T # xs) \<le> t"
  by (induction xs arbitrary: T) auto

lemma sw_inv_kept:
  assumes "sw_inv T c rec" "T \<le> t"
  shows "kept t c = in_window (sw_window c) t rec"
proof -
  have "kept t c = filter (\<lambda>x. t - sw_window c < x) rec"
    using assms by (simp add: kept_def sw_inv_def)
  also have "\<dots> = in_window (sw_window c) t rec"
    using assms unfolding in_window_def sw_inv_def by (intro filter_cong) auto
  finally show ?thesis .
qed

text \<open>The stored list never grows beyond a non-negative limit.\<close>

lemma length_kept: "length (kept now c) \<le> length (sw_hits c)"
  by (simp add: kept_def)

lemma hit_length:
  assumes "int (length (sw_hits c)) \<le> sw_limit c"
  shows "int (length (sw_hits (snd (SlidingWindowCounter_hit now cost c)))) \<le> sw_limit c"
  using assms length_kept [of now c]
  by (auto simp: SlidingWindowCounter_hit_def Let_def)

lemma hit_all_length:
  assumes "int (length (sw_hits c)) \<le> sw_limit c"
  shows "int (length (sw_hits (hit_all c calls))) \<le> sw_limit c"
  using assms
proof (induction c calls rule: hit_all.induct)
  case (1 c)
  then show ?case by simp
next
  case (2 c now cost calls)
  then show ?case using hit_length [of c now cost] by simp
qed

text \<open>
  Claim C2 (sliding window hit semantics), as amended. A counter is created and receives
  any sequence of \<^verbatim>\<open>hit\<close> calls under a clock that never runs backwards; \<open>t\<close> is a time not
  before the last of them. Then the hits retained by the purge at \<open>t\<close> are exactly the
  recorded hits in \<open>(t - window, t]\<close>; a \<^verbatim>\<open>hit(cost)\<close> at \<open>t\<close> succeeds if and only if
  their number plus the cost is at most the limit; a failed call stores the purged list
  and nothing more; a cost above the limit always fails; and, when the limit is not
  negative, \<^verbatim>\<open>hit(0)\<close> succeeds and adds no hit.
\<close>

theorem sliding_window_hit:
  fixes calls :: "(real \<times> int) list" and t0 t w :: real and lmt cost :: int
  defines "c \<equiv> hit_all (SlidingWindowCounter_init lmt w) calls"
    and "rec \<equiv> recorded (SlidingWindowCounter_init lmt w) calls"
  assumes "clock_advances t0 (map fst calls @ [t])"
  shows "kept t c = in_window w t rec
       \<and> (fst (SlidingWindowCounter_hit t cost c) \<longleftrightarrow>
            int (length (in_window w t rec)) + cost \<le> lmt)
       \<and> (\<not> fst (SlidingWindowCounter_hit t cost c) \<longrightarrow>
            sw_hits (snd (SlidingWindowCounter_hit t cost c)) = kept t c)
       \<and> (0 \<le> lmt \<longrightarrow>
            fst (SlidingWindowCounter_hit t 0 c)
          \<and> sw_hits (snd (SlidingWindowCounter_hit t 0 c)) = kept t c)
       \<and> (lmt < cost \<longrightarrow> \<not> fst (SlidingWindowCounter_hit t cost c))"
proof -
  let ?c0 = "SlidingWindowCounter_init lmt w"
  have clock: "clock_advances t0 (map fst calls)" and last: "last (t0 # map fst calls) \<le> t"
    using assms(3) by (simp_all add: clock_advances_append)
  have fields: "sw_limit c = lmt" "sw_window c = w"
    by (simp_all add: c_def) (simp_all add: SlidingWindowCounter_init_def)
  have "sw_inv (last (t0 # map fst calls)) c ([] @ rec)"
    unfolding c_def rec_def using sw_inv_init clock by (rule sw_inv_hit_all)
  then have kept: "kept t c = in_window w t rec"
    using last sw_inv_kept fields by fastforce
  have iff: "fst (SlidingWindowCounter_hit t cost c) \<longleftrightarrow>
      int (length (in_window w t rec)) + cost \<le> lmt"
    by (simp add: hit_success kept fields)
  have failed: "\<not> fst (SlidingWindowCounter_hit t cost c) \<longrightarrow>
      sw_hits (snd (SlidingWindowCounter_hit t cost c)) = kept t c"
    by (simp add: hit_hits appended_def)
  have zero: "fst (SlidingWindowCounter_hit t 0 c)
      \<and> sw_hits (snd (SlidingWindowCounter_hit t 0 c)) = kept t c" if "0 \<le> lmt"
  proof -
    have "int (length (sw_hits ?c0)) \<le> sw_limit ?c0"
      using that by (simp add: SlidingWindowCounter_init_def)
    then have "int (length (sw_hits c)) \<le> sw_limit ?c0"
      unfolding c_def by (rule hit_all_length)
    then have "int (length (kept t c)) \<le> lmt"
      using length_kept [of t c] by (simp add: SlidingWindowCounter_init_def)
    then show ?thesis
      by (simp add: hit_success hit_hits appended_def fields)
  qed
  have over: "lmt < cost \<longrightarrow> \<not> fst (SlidingWindowCounter_hit t cost c)"
    by (simp add: hit_success fields)
  show ?thesis
    using kept iff failed zero over by blast
qed

text \<open>
  Limit 2 and window 10; unit hits at times 0, 4, 5 (refused) and 12. At time 13 the
  retained hits are 4 and 12: a unit hit and a hit of cost 3 fail, a hit of cost 0
  succeeds.
\<close>

theorem sliding_window_hit_witness:
  "recorded (SlidingWindowCounter_init 2 10) [(0, 1), (4, 1), (5, 1), (12, 1)] = [0, 4, 12]
   \<and> kept 13 (hit_all (SlidingWindowCounter_init 2 10) [(0, 1), (4, 1), (5, 1), (12, 1)]) = [4, 12]
   \<and> in_window 10 13 [0, 4, 12] = [4, 12]
   \<and> \<not> fst (SlidingWindowCounter_hit 13 1
          (hit_all (SlidingWindowCounter_init 2 10) [(0, 1), (4, 1), (5, 1), (12, 1)]))
   \<and> sw_hits (snd (SlidingWindowCounter_hit 13 1
          (hit_all (SlidingWindowCounter_init 2 10) [(0, 1), (4, 1), (5, 1), (12, 1)]))) = [4, 12]
   \<and> SlidingWindowCounter_hit 13 0
          (hit_all (SlidingWindowCounter_init 2 10) [(0, 1), (4, 1), (5, 1), (12, 1)])
       = (True, \<lparr>sw_limit = 2, sw_window = 10, sw_hits = [4, 12]\<rparr>)
   \<and> \<not> fst (SlidingWindowCounter_hit 13 3
          (hit_all (SlidingWindowCounter_init 2 10) [(0, 1), (4, 1), (5, 1), (12, 1)]))"
  using sliding_window_hit [of 0 "[(0, 1), (4, 1), (5, 1), (12, 1)]" 13 2 10 1]
    sliding_window_hit [of 0 "[(0, 1), (4, 1), (5, 1), (12, 1)]" 13 2 10 3]
  by (simp add: SlidingWindowCounter_hit_def SlidingWindowCounter_init_def kept_def in_window_def Let_def)

text \<open>
  The claim as stated lets \<^verbatim>\<open>hit(0)\<close> succeed on every counter. A counter whose limit is
  negative, which \<^verbatim>\<open>_parse_rate("-1/minute")\<close> produces, refuses it: \<open>0 + 0 \<le> -1\<close> is false.
\<close>

theorem sliding_window_negative_limit_counterexample:
  "\<not> fst (SlidingWindowCounter_hit 0 0 (SlidingWindowCounter_init (- 1) 60))"
  by (simp add: SlidingWindowCounter_hit_def SlidingWindowCounter_init_def kept_def Let_def)

lemma sorted_hd_Min_list:
  fixes xs :: "real list"
  assumes "sorted xs" "xs \<noteq> []"
  shows "hd xs = Min (set xs)"
proof (cases xs)
  case Nil
  with assms show ?thesis by simp
next
  case (Cons x ys)
  have "Min (set (x # ys)) = x"
    using assms(1) Cons by (intro Min_eqI) auto
  then show ?thesis using Cons by simp
qed

lemma stored_fresh_hit:
  assumes "0 < sw_window c"
  shows "stored_fresh now (snd (SlidingWindowCounter_hit now cost c))"
  using assms
  by (auto simp: stored_fresh_def hit_hits kept_def Let_def dest: set_appended)

lemma stored_fresh_hit_all:
  assumes "stored_fresh T c" "0 < sw_window c"
  shows "stored_fresh (last (T # map fst calls)) (hit_all c calls)"
  using assms
proof (induction calls arbitrary: T c)
  case Nil
  then show ?case by simp
next
  case (Cons call calls)
  obtain now cost where call: "call = (now, cost)" by (cases call)
  let ?c' = "snd (SlidingWindowCounter_hit now cost c)"
  have "stored_fresh now ?c'"
    using Cons.prems(2) by (rule stored_fresh_hit)
  moreover have "0 < sw_window ?c'"
    using Cons.prems(2) by simp
  ultimately have "stored_fresh (last (now # map fst calls)) (hit_all ?c' calls)"
    by (rule Cons.IH)
  then show ?case by (simp add: call)
qed

lemma reset_at_hd:
  "SlidingWindowCounter_reset_at now c =
     (if sw_hits c = [] then now + sw_window c else hd (sw_hits c) + sw_window c)"
  by (simp add: SlidingWindowCounter_reset_at_def split: list.splits)

text \<open>
  Claim C9 (sliding window \<^verbatim>\<open>reset_at\<close>), as amended. \<^verbatim>\<open>reset_at\<close> does not purge: it reads
  the list as the last \<^verbatim>\<open>hit\<close> call stored it. For a counter with a positive window that
  has received any sequence of \<^verbatim>\<open>hit\<close> calls under a clock that never runs backwards, the
  stored hits are the recorded hits within the trailing window at the time \<open>T\<close> of the last
  call; \<^verbatim>\<open>reset_at\<close> returns the oldest of them plus the window, and \<open>now + window\<close> if
  none is stored.
\<close>

theorem sliding_window_reset_at:
  fixes calls :: "(real \<times> int) list" and t0 w now :: real and lmt :: int
  defines "c \<equiv> hit_all (SlidingWindowCounter_init lmt w) calls"
    and "rec \<equiv> recorded (SlidingWindowCounter_init lmt w) calls"
    and "T \<equiv> last (t0 # map fst calls)"
  assumes "clock_advances t0 (map fst calls)" and "0 < w"
  shows "sw_hits c = in_window w T rec
       \<and> SlidingWindowCounter_reset_at now c =
           (if sw_hits c = [] then now + w else Min (set (sw_hits c)) + w)"
proof -
  let ?c0 = "SlidingWindowCounter_init lmt w"
  have fields: "sw_window c = w"
    by (simp add: c_def) (simp add: SlidingWindowCounter_init_def)
  have inv: "sw_inv T c ([] @ rec)"
    unfolding c_def rec_def T_def using sw_inv_init assms(4) by (rule sw_inv_hit_all)
  have "stored_fresh t0 ?c0" "0 < sw_window ?c0"
    using assms(5) by (simp_all add: stored_fresh_def SlidingWindowCounter_init_def)
  then have fresh: "stored_fresh T c"
    unfolding c_def T_def by (rule stored_fresh_hit_all)
  have "kept T c = in_window w T rec"
    using inv sw_inv_kept [of T c rec T] fields by simp
  moreover have "kept T c = sw_hits c"
    using fresh by (simp add: kept_def stored_fresh_def Let_def)
  ultimately have stored: "sw_hits c = in_window w T rec"
    by simp
  have "sorted rec"
    using inv by (simp add: sw_inv_def)
  then have "sorted (sw_hits c)"
    unfolding stored in_window_def by (simp add: sorted_wrt_filter)
  then have "sw_hits c \<noteq> [] \<Longrightarrow> hd (sw_hits c) = Min (set (sw_hits c))"
    by (rule sorted_hd_Min_list)
  then have "SlidingWindowCounter_reset_at now c =
      (if sw_hits c = [] then now + w else Min (set (sw_hits c)) + w)"
    by (simp add: reset_at_hd fields)
  with stored show ?thesis by simp
qed

text \<open>
  Limit 2 and window 10, unit hits at times 0, 4, 5 (refused) and 12: the stored hits are
  4 and 12 and \<^verbatim>\<open>reset_at\<close> is 14. On a fresh counter \<^verbatim>\<open>reset_at\<close> read at time 13 is 23.
\<close>

theorem sliding_window_reset_at_witness:
  "sw_hits (hit_all (SlidingWindowCounter_init 2 10) [(0, 1), (4, 1), (5, 1), (12, 1)]) = [4, 12]
   \<and> in_window 10 12 (recorded (SlidingWindowCounter_init 2 10) [(0, 1), (4, 1), (5, 1), (12, 1)]) = [4, 12]
   \<and> SlidingWindowCounter_reset_at 13
        (hit_all (SlidingWindowCounter_init 2 10) [(0, 1), (4, 1), (5, 1), (12, 1)]) = 14
   \<and> SlidingWindowCounter_reset_at 13 (hit_all (SlidingWindowCounter_init 2 10) []) = 23"
  using sliding_window_reset_at [of 0 "[(0, 1), (4, 1), (5, 1), (12, 1)]" 10 2 13]
    sliding_window_reset_at [of 0 "[]" 10 2 13]
  by (simp add: SlidingWindowCounter_hit_def SlidingWindowCounter_init_def kept_def in_window_def Let_def)

text \<open>
  The claim as stated takes the oldest hit that is still within the trailing window when
  \<^verbatim>\<open>reset_at\<close> is read, and \<open>now + window\<close> when there is none. One hit at time 0 with window
  10, read at time 100: no hit is within \<open>(90, 100]\<close>, yet the result is 10 and not 110.
\<close>

theorem sliding_window_reset_at_stale_counterexample:
  "sw_hits (hit_all (SlidingWindowCounter_init 5 10) [(0, 1)]) = [0]
   \<and> kept 100 (hit_all (SlidingWindowCounter_init 5 10) [(0, 1)]) = []
   \<and> in_window 10 100 (recorded (SlidingWindowCounter_init 5 10) [(0, 1)]) = []
   \<and> SlidingWindowCounter_reset_at 100 (hit_all (SlidingWindowCounter_init 5 10) [(0, 1)]) = 10"
  by (simp add: SlidingWindowCounter_hit_def SlidingWindowCounter_init_def kept_def in_window_def
      SlidingWindowCounter_reset_at_def Let_def)

section \<open>Properties of the middleware pipeline\<close>

lemma execute_drop:
  "execute chain final_handler req res index =
     foldr (\<lambda>mw k. mw req res k) (drop index chain) (final_handler req res)"
proof (induction chain final_handler req res index rule: execute.induct)
  case (1 chain final_handler req res index)
  show ?case
  proof (cases "index \<ge> length chain")
    case True
    then show ?thesis by simp
  next
    case False
    then have "drop index chain = chain ! index # drop (Suc index) chain"
      by (simp add: Cons_nth_drop_Suc)
    with False 1 show ?thesis
      by (subst execute.simps) (simp add: Let_def)
  qed
qed

lemma run_foldr:
  "MiddlewarePipeline_run stack req res final_handler =
     foldr (\<lambda>mw k. mw req res k) stack (final_handler req res)"
  by (simp add: MiddlewarePipeline_run_def execute_drop del: execute.simps)

lemma run_logs_around:
  "MiddlewarePipeline_run (map logs_around names @ rest) req res final_handler out =
     (let (result, out') = MiddlewarePipeline_run rest req res final_handler
                             (out @ map (\<lambda>n. n @ ''-enter'') names)
      in (result, out' @ rev (map (\<lambda>n. n @ ''-exit'') names)))"
proof (induction names arbitrary: out)
  case Nil
  then show ?case by (simp add: run_foldr)
next
  case (Cons n names)
  have "MiddlewarePipeline_run (map logs_around (n # names) @ rest) req res final_handler out =
      logs_around n req res (MiddlewarePipeline_run (map logs_around names @ rest) req res final_handler) out"
    by (simp add: run_foldr)
  then show ?case
    by (simp add: logs_around_def [of n] Cons.IH Let_def split: prod.splits)
qed

text \<open>
  Claim C6 (middleware onion ordering). For every list of logging middlewares, run with
  a handler that logs \<open>handle\<close>, the log receives the \<open>enter\<close> lines in registration order,
  then \<open>handle\<close>, then the \<open>exit\<close> lines in reverse registration order, and the handler's
  result is returned. For the pipeline built by adding \<open>A\<close>, \<open>B\<close> and \<open>C\<close> in this order the
  log is \<open>A-enter, B-enter, C-enter, handle, C-exit, B-exit, A-exit\<close>.
\<close>

theorem middleware_onion_order:
  "MiddlewarePipeline_run (map logs_around names) req res (logs_handle result) out =
     (result, out @ map (\<lambda>n. n @ ''-enter'') names @ [''handle'']
                  @ rev (map (\<lambda>n. n @ ''-exit'') names))
   \<and> MiddlewarePipeline_run
       (MiddlewarePipeline_add (MiddlewarePipeline_add (MiddlewarePipeline_add []
          (logs_around ''A'')) (logs_around ''B'')) (logs_around ''C''))
       req res (logs_handle result) [] =
     (result, [''A-enter'', ''B-enter'', ''C-enter'', ''handle'', ''C-exit'', ''B-exit'', ''A-exit''])"
proof -
  have handle: "MiddlewarePipeline_run [] req res (logs_handle result) l = (result, l @ [''handle''])"
    for l :: "string list"
    by (simp add: run_foldr logs_handle_def)
  have general: "MiddlewarePipeline_run (map logs_around ns) req res (logs_handle result) l =
     (result, l @ map (\<lambda>n. n @ ''-enter'') ns @ [''handle''] @ rev (map (\<lambda>n. n @ ''-exit'') ns))"
    for ns and l :: "string list"
    using run_logs_around [of ns "[]" req res "logs_handle result" l]
    by (simp add: handle)
  have "MiddlewarePipeline_run
       (MiddlewarePipeline_add (MiddlewarePipeline_add (MiddlewarePipeline_add []
          (logs_around ''A'')) (logs_around ''B'')) (logs_around ''C''))
       req res (logs_handle result) [] =
     MiddlewarePipeline_run (map logs_around [''A'', ''B'', ''C'']) req res (logs_handle result) []"
    by (simp add: MiddlewarePipeline_add_def)
  then show ?thesis
    using general [of names out] general [of "[''A'', ''B'', ''C'']" "[]"] by simp
qed



lemma ignores_next_skips: "ignores_next sc \<Longrightarrow> skips_next sc req res s"
  unfolding ignores_next_def skips_next_def by metis






section \<open>Properties of the limiter registry\<close>

lemma get_bucket_stores:
  assumes "get_bucket L key scope lmt w now = Inr (b, L1)"
  shows "buckets L1 (bucket_key key scope) = Some b"
  using assms
  by (auto simp: get_bucket_def Let_def split: option.splits if_splits)

lemma get_bucket_existing:
  assumes "buckets L (bucket_key key scope) = Some b"
  shows "get_bucket L key scope lmt w now = Inr (b, L)"
  using assms by (simp add: get_bucket_def Let_def)

text \<open>
  Claim C10 (the bucket key is not injective). The key is the concatenation
  \<open>key @ '':'' @ scope\<close>. The distinct pairs \<open>(''a:b'', ''c'')\<close> and \<open>(''a'', ''b:c'')\<close> have the same
  bucket key. \<^verbatim>\<open>_get_bucket\<close> stores the bucket it returns under the bucket key of its
  pair; and whenever a bucket is stored under the bucket key of one pair, \<^verbatim>\<open>_get_bucket\<close>
  called for any pair with the same bucket key returns that very bucket, with the hits it
  holds, whatever limit and window the call asks for, and leaves the registry as it is.
\<close>

theorem bucket_key_not_injective:
  "bucket_key key scope = key @ '':'' @ scope
   \<and> (''a:b'', ''c'') \<noteq> (''a'', ''b:c'')
   \<and> bucket_key ''a:b'' ''c'' = bucket_key ''a'' ''b:c''
   \<and> (get_bucket L0 key1 scope1 lmt w now = Inr (b0, L) \<longrightarrow>
        buckets L (bucket_key key1 scope1) = Some b0)
   \<and> (bucket_key key1 scope1 = bucket_key key2 scope2 \<longrightarrow>
        buckets L (bucket_key key1 scope1) = Some b \<longrightarrow>
        get_bucket L key2 scope2 lmt' w' now' = Inr (b, L))"
proof -
  have "get_bucket L key2 scope2 lmt' w' now' = Inr (b, L)"
    if "bucket_key key1 scope1 = bucket_key key2 scope2"
      and "buckets L (bucket_key key1 scope1) = Some b"
  proof -
    have "buckets L (bucket_key key2 scope2) = Some b"
      using that by simp
    then show ?thesis by (rule get_bucket_existing)
  qed
  then show ?thesis
    using get_bucket_stores [of L0 key1 scope1 lmt w now b0 L]
    by (simp add: bucket_key_def)
qed

text \<open>
  A sliding-window limiter. The bucket created for client \<open>a:b\<close> in scope \<open>c\<close> with limit 1
  is stored under \<open>a:b:c\<close>. After that client has recorded a hit at time 0, the bucket
  returned for client \<open>a\<close> in scope \<open>b:c\<close> is this bucket with its hit, although the call
  asks for limit 99 and window 1.
\<close>

theorem bucket_key_not_injective_witness:
  "get_bucket (RateLimiter_init (\<lambda>q :: string. q) ''sliding-window'' True True None)
       ''a:b'' ''c'' 1 60 0
     = Inr (Sliding (SlidingWindowCounter_init 1 60),
            store_bucket (RateLimiter_init (\<lambda>q. q) ''sliding-window'' True True None)
              ''a:b:c'' (Sliding (SlidingWindowCounter_init 1 60)))
   \<and> buckets (store_bucket (RateLimiter_init (\<lambda>q :: string. q) ''sliding-window'' True True None)
                ''a:b:c'' (Sliding (SlidingWindowCounter_init 1 60))) ''a:b:c''
     = Some (Sliding (SlidingWindowCounter_init 1 60))
   \<and> get_bucket
       (store_bucket (RateLimiter_init (\<lambda>q :: string. q) ''sliding-window'' True True None)
          ''a:b:c'' (Sliding \<lparr>sw_limit = 1, sw_window = 60, sw_hits = [0]\<rparr>))
       ''a'' ''b:c'' 99 1 7
     = Inr (Sliding \<lparr>sw_limit = 1, sw_window = 60, sw_hits = [0]\<rparr>,
            store_bucket (RateLimiter_init (\<lambda>q. q) ''sliding-window'' True True None)
              ''a:b:c'' (Sliding \<lparr>sw_limit = 1, sw_window = 60, sw_hits = [0]\<rparr>))"
  using bucket_key_not_injective
    [of "''a:b''" "''c''"
        "RateLimiter_init (\<lambda>q :: string. q) ''sliding-window'' True True None"
        "''a:b''" "''c''" 1 60 0
        "Sliding (SlidingWindowCounter_init 1 60)"
        "store_bucket (RateLimiter_init (\<lambda>q. q) ''sliding-window'' True True None)
           ''a:b:c'' (Sliding (SlidingWindowCounter_init 1 60))"
        "''a''" "''b:c''" "Sliding (SlidingWindowCounter_init 1 60)" 99 1 7]
    bucket_key_not_injective
    [of "''a:b''" "''c''"
        "RateLimiter_init (\<lambda>q :: string. q) ''sliding-window'' True True None"
        "''a:b''" "''c''" 1 60 0
        "Sliding (SlidingWindowCounter_init 1 60)"
        "store_bucket (RateLimiter_init (\<lambda>q. q) ''sliding-window'' True True None)
           ''a:b:c'' (Sliding \<lparr>sw_limit = 1, sw_window = 60, sw_hits = [0]\<rparr>)"
        "''a''" "''b:c''" "Sliding \<lparr>sw_limit = 1, sw_window = 60, sw_hits = [0]\<rparr>" 99 1 7]
  by (simp add: get_bucket_def bucket_key_def store_bucket_def RateLimiter_init_def Let_def)

text \<open>
  The shared quota, through the wrapper of \<^verbatim>\<open>limit\<close>: with the limit \<^verbatim>\<open>1/minute\<close>, a request of
  client \<open>a:b\<close> to the route of scope \<open>c\<close> uses up the quota of client \<open>a\<close> on the route of
  scope \<open>b:c\<close>.
\<close>

lemma shared_quota_example:
  fixes L :: "string RateLimiter"
  defines "L \<equiv> RateLimiter_init (\<lambda>q. q) ''sliding-window'' False True None"
  shows "\<exists>L1 res2 L2.
     limit_wrapper 1 60 None (Cost_const 1) None ''c'' L ''a:b'' Response_init 0 0
       = Inr (Handler_called, Response_init, L1)
   \<and> limit_wrapper 1 60 None (Cost_const 1) None ''b:c'' L1 ''a'' Response_init 1 1
       = Inr (Rate_exceeded, res2, L2)"
  by (simp add: L_def limit_wrapper_def RateLimiter_init_def get_bucket_def bucket_key_def
      store_bucket_def SlidingWindowCounter_hit_def SlidingWindowCounter_init_def kept_def Let_def)

subsection \<open>Whitelisted keys\<close>

lemma limit_wrapper_whitelisted:
  assumes "(case key_func_arg of Some k \<Rightarrow> k | None \<Rightarrow> key_func L) req \<in> whitelist L"
  shows "limit_wrapper count window key_func_arg cost error_message fn_scope L req res now wall
         = Inr (Handler_called, res, L)"
  using assms by (simp add: limit_wrapper_def Let_def)

lemma shared_limit_wrapper_whitelisted:
  assumes "(case key_func_arg of Some k \<Rightarrow> k | None \<Rightarrow> key_func L) req \<in> whitelist L"
  shows "shared_limit_wrapper count window scope_name key_func_arg cost L req res now wall
         = Inr (Handler_called, res, L)"
  using assms by (simp add: shared_limit_wrapper_def Let_def)

text \<open>
  Claim C5 (whitelist bypass) does not hold for the wrapper of \<^verbatim>\<open>dynamic\<close>, which never
  looks at the whitelist, while the wrappers of \<^verbatim>\<open>limit\<close> and \<^verbatim>\<open>shared_limit\<close> return to the
  handler for a whitelisted key before any bucket is touched (the two lemmas above). A
  sliding-window limiter with the key \<open>10.0.0.1\<close> whitelisted and a dynamic rate of
  \<^verbatim>\<open>1/minute\<close>: the first request of the whitelisted key creates a bucket and records a
  hit in it, and its second request, a second later, is refused.
\<close>

theorem dynamic_wrapper_ignores_whitelist:
  fixes L :: "string RateLimiter"
  defines "L \<equiv> whitelist_key (RateLimiter_init (\<lambda>q. q) ''sliding-window'' True True None) ''10.0.0.1''"
  defines "c1 \<equiv> \<lparr>sw_limit = 1, sw_window = 60, sw_hits = [0]\<rparr>"
  shows "''10.0.0.1'' \<in> whitelist L
       \<and> buckets L = Map.empty
       \<and> dynamic_wrapper (\<lambda>q. ''1/minute'') ''app.handler'' L ''10.0.0.1'' Response_init 0 0
           = Inr (Handler_called, Response_init,
                  store_bucket L ''10.0.0.1:app.handler'' (Sliding c1))
       \<and> dynamic_wrapper (\<lambda>q. ''1/minute'') ''app.handler''
             (store_bucket L ''10.0.0.1:app.handler'' (Sliding c1)) ''10.0.0.1'' Response_init 1 1
           = Inr (Rate_exceeded,
                  rate_exceeded ''10.0.0.1'' Response_init (Some (Sliding c1)) 1 None 1,
                  store_bucket L ''10.0.0.1:app.handler'' (Sliding c1))"
proof -
  have parse: "parse_rate ''1/minute'' = Inr (1, 60)"
    by (simp add: parse_rate_def strip_def isspace_def py_int_def int_strip_def int_space_def max_str_digits_def isdigit_def decimal_def
        digit_value_def lower_def lower_char_def multipliers_def Let_def)
  show ?thesis
    by (simp add: L_def c1_def dynamic_wrapper_def parse whitelist_key_def RateLimiter_init_def
        get_bucket_def bucket_key_def store_bucket_def SlidingWindowCounter_hit_def
        SlidingWindowCounter_init_def kept_def Let_def)
qed

subsection \<open>Rate strings\<close>

lemma split_not_Nil [simp]: "split sep s \<noteq> []"
  by (induction s) (simp_all add: Let_def)

lemma length_split: "length (split sep s) = Suc (count_list s sep)"
proof (induction s)
  case Nil
  then show ?case by simp
next
  case (Cons c cs)
  have "length (tl (split sep cs)) = count_list cs sep"
    using Cons.IH by simp
  then show ?case
    using Cons.IH by (simp add: Let_def)
qed

lemma split_no_sep: "sep \<notin> set s \<Longrightarrow> split sep s = [s]"
  by (induction s) (auto simp: Let_def)

lemma split_first: "sep \<notin> set a \<Longrightarrow> split sep (a @ sep # b) = a # split sep b"
  by (induction a) (auto simp: Let_def)

lemma count_list_0: "count_list s x = 0 \<longleftrightarrow> x \<notin> set s"
  by (induction s) auto

lemma split_two:
  "length (split sep s) = 2 \<longleftrightarrow> (\<exists>a b. s = a @ sep # b \<and> sep \<notin> set a \<and> sep \<notin> set b)"
proof
  assume len: "length (split sep s) = 2"
  then have "count_list s sep = 1"
    by (simp add: length_split)
  then have "sep \<in> set s"
    using count_list_0 [of s sep] by auto
  then obtain a b where s: "s = a @ sep # b" and a: "sep \<notin> set a"
    by (auto dest: split_list_first)
  have "length (split sep b) = 1"
    using len a by (simp add: s split_first)
  then have "sep \<notin> set b"
    by (simp add: length_split count_list_0)
  with s a show "\<exists>a b. s = a @ sep # b \<and> sep \<notin> set a \<and> sep \<notin> set b"
    by blast
next
  assume "\<exists>a b. s = a @ sep # b \<and> sep \<notin> set a \<and> sep \<notin> set b"
  then show "length (split sep s) = 2"
    by (auto simp: split_first split_no_sep)
qed

lemma parse_rate_bad_format:
  assumes "count_list (strip s) CHR ''/'' \<noteq> 1"
  shows "parse_rate s = Inl (ValueError Invalid_rate_format)"
  using assms by (simp add: parse_rate_def length_split Let_def)

lemma parse_rate_two_parts:
  assumes "strip s = a @ CHR ''/'' # p" "CHR ''/'' \<notin> set a" "CHR ''/'' \<notin> set p"
  shows "parse_rate s =
     (case py_int a of
        Inl e \<Rightarrow> Inl e
      | Inr count \<Rightarrow>
          (case map_of multipliers (lower (strip p)) of
             None \<Rightarrow> Inl (ValueError Unknown_time_period)
           | Some m \<Rightarrow> Inr (count, m)))"
  using assms
  by (simp add: parse_rate_def split_first split_no_sep Let_def split: sum.splits)

lemma py_int_error:
  "py_int a = Inl e \<Longrightarrow> e = ValueError Invalid_int_literal \<or> e = ValueError Int_digits_exceeded"
  by (auto simp: py_int_def Let_def split: prod.splits if_splits)

lemma parse_rate_error:
  assumes "parse_rate s = Inl e"
  shows "\<exists>k. e = ValueError k"
  using assms
  by (auto simp: parse_rate_def Let_def split: if_splits sum.splits option.splits
      dest: py_int_error)

lemma parse_rate_window:
  assumes "parse_rate s = Inr (count, m)"
  shows "m \<in> {1, 60, 3600, 86400}"
proof -
  from assms obtain period where "map_of multipliers period = Some m"
    by (auto simp: parse_rate_def Let_def split: if_splits sum.splits option.splits)
  then have "(period, m) \<in> set multipliers"
    by (rule map_of_SomeD)
  then show ?thesis
    by (auto simp: multipliers_def)
qed

text \<open>
  Registration through \<^verbatim>\<open>limit\<close> and \<^verbatim>\<open>shared_limit\<close> parses the rate string once; the
  wrapper it returns is the wrapper of the parsed count and window, which holds no rate
  string.
\<close>

lemma limit_registered:
  assumes "RateLimiter_limit L s key_func_arg cost error_message scope fn_name = Inr (L', wr)"
  shows "\<exists>c m. parse_rate s = Inr (c, m)
         \<and> wr = limit_wrapper c m key_func_arg cost error_message
                  (case scope of None \<Rightarrow> fn_name | Some sc \<Rightarrow> if sc = [] then fn_name else sc)"
  using assms
  by (auto simp: RateLimiter_limit_def Let_def split: sum.splits)

lemma shared_limit_registered:
  assumes "RateLimiter_shared_limit L s scope_name key_func_arg cost = Inr (L', wr)"
  shows "\<exists>c m. parse_rate s = Inr (c, m)
         \<and> wr = shared_limit_wrapper c m scope_name key_func_arg cost"
  using assms
  by (auto simp: RateLimiter_shared_limit_def split: sum.splits)

text \<open>
  A count of 401 digits is an integer literal, so the route registers; under the
  token-bucket strategy the first request then raises \<^verbatim>\<open>OverflowError\<close> in \<^verbatim>\<open>_get_bucket\<close>.
\<close>

lemma token_bucket_overflow_example:
  "get_bucket (RateLimiter_init (\<lambda>q :: string. q) ''token-bucket'' True True None)
     ''10.0.0.1'' ''app.handler'' (10 ^ 400) 60 0 = Inl OverflowError"
proof -
  have "(2::real) ^ 1024 - 2 ^ 970 \<le> 10 ^ 400 / 60"
    by simp
  then show ?thesis
    by (simp add: get_bucket_def RateLimiter_init_def float_overflow_def Let_def)
qed

lemma dynamic_wrapper_parse_error:
  assumes "enabled L" "parse_rate (rate_func req) = Inl e"
  shows "dynamic_wrapper rate_func fn_name L req res now wall = Inl e"
  using assms by (simp add: dynamic_wrapper_def Let_def)

lemma parse_rate_examples:
  "parse_rate ''10/minute'' = Inr (10, 60)"
  "parse_rate ''3/hour'' = Inr (3, 3600)"
  "parse_rate ''bogus'' = Inl (ValueError Invalid_rate_format)"
  by (simp_all add: parse_rate_def strip_def isspace_def py_int_def int_strip_def int_space_def max_str_digits_def isdigit_def decimal_def
      digit_value_def lower_def lower_char_def multipliers_def Let_def)

text \<open>
  Claim C4 (rate spec parsing), as amended. \<^verbatim>\<open>_parse_rate("10/minute")\<close> is \<open>(10, 60)\<close> and
  \<^verbatim>\<open>_parse_rate("3/hour")\<close> is \<open>(3, 3600)\<close>; \<^verbatim>\<open>"bogus"\<close> fails. The error of the source is
  \<^verbatim>\<open>ValueError\<close>, and every failure of \<^verbatim>\<open>_parse_rate\<close> is one: the stripped string does not
  hold exactly one \<open>/\<close>, or \<^verbatim>\<open>int\<close> refuses the count, or the period is not in the table.
  For \<^verbatim>\<open>limit\<close> and \<^verbatim>\<open>shared_limit\<close> the rate string is parsed when the route is registered:
  registration fails exactly when \<^verbatim>\<open>_parse_rate\<close> fails, with its error, and the wrapper it
  returns otherwise is built from the parsed count and window and parses nothing when it
  serves a request. For \<^verbatim>\<open>dynamic\<close> registration never fails: the rate string is computed
  from the request and a failure of \<^verbatim>\<open>_parse_rate\<close> is raised when the request is served.
\<close>

theorem parse_rate_registration:
  "parse_rate ''10/minute'' = Inr (10, 60)
   \<and> parse_rate ''3/hour'' = Inr (3, 3600)
   \<and> parse_rate ''bogus'' = Inl (ValueError Invalid_rate_format)
   \<and> (count_list (strip s) CHR ''/'' \<noteq> 1 \<longrightarrow> parse_rate s = Inl (ValueError Invalid_rate_format))
   \<and> (strip s = a @ CHR ''/'' # p \<and> CHR ''/'' \<notin> set a \<and> CHR ''/'' \<notin> set p \<longrightarrow>
        (py_int a = Inl e \<longrightarrow> parse_rate s = Inl e)
      \<and> (py_int a = Inr c \<longrightarrow> map_of multipliers (lower (strip p)) = None \<longrightarrow>
            parse_rate s = Inl (ValueError Unknown_time_period))
      \<and> (py_int a = Inr c \<longrightarrow> map_of multipliers (lower (strip p)) = Some m \<longrightarrow>
            parse_rate s = Inr (c, m)))
   \<and> (parse_rate s = Inl e \<longrightarrow> (\<exists>k. e = ValueError k))
   \<and> (RateLimiter_limit L s key_func_arg cost error_message scope fn_name = Inl e
        \<longleftrightarrow> parse_rate s = Inl e)
   \<and> (RateLimiter_shared_limit L s scope_name key_func_arg cost = Inl e
        \<longleftrightarrow> parse_rate s = Inl e)
   \<and> (RateLimiter_limit L s key_func_arg cost error_message scope fn_name = Inr (L', wr) \<longrightarrow>
        (\<exists>c' m'. parse_rate s = Inr (c', m')
           \<and> wr = limit_wrapper c' m' key_func_arg cost error_message
                    (case scope of None \<Rightarrow> fn_name
                     | Some sc \<Rightarrow> if sc = [] then fn_name else sc)))
   \<and> (RateLimiter_shared_limit L s scope_name key_func_arg cost = Inr (L', wr') \<longrightarrow>
        (\<exists>c' m'. parse_rate s = Inr (c', m')
           \<and> wr' = shared_limit_wrapper c' m' scope_name key_func_arg cost))
   \<and> RateLimiter_dynamic L rate_func fn_name = Inr (L, dynamic_wrapper rate_func fn_name)
   \<and> (enabled L2 \<longrightarrow> parse_rate (rate_func req) = Inl e \<longrightarrow>
        dynamic_wrapper rate_func fn_name L2 req res now wall = Inl e)"
proof -
  have two: "strip s = a @ CHR ''/'' # p \<and> CHR ''/'' \<notin> set a \<and> CHR ''/'' \<notin> set p \<longrightarrow>
        (py_int a = Inl e \<longrightarrow> parse_rate s = Inl e)
      \<and> (py_int a = Inr c \<longrightarrow> map_of multipliers (lower (strip p)) = None \<longrightarrow>
            parse_rate s = Inl (ValueError Unknown_time_period))
      \<and> (py_int a = Inr c \<longrightarrow> map_of multipliers (lower (strip p)) = Some m \<longrightarrow>
            parse_rate s = Inr (c, m))"
    by (auto simp: parse_rate_two_parts)
  have lim: "RateLimiter_limit L s key_func_arg cost error_message scope fn_name = Inl e
        \<longleftrightarrow> parse_rate s = Inl e"
    by (simp add: RateLimiter_limit_def Let_def split: sum.splits prod.splits)
  have shared: "RateLimiter_shared_limit L s scope_name key_func_arg cost = Inl e
        \<longleftrightarrow> parse_rate s = Inl e"
    by (simp add: RateLimiter_shared_limit_def split: sum.splits prod.splits)
  have dyn: "RateLimiter_dynamic L rate_func fn_name = Inr (L, dynamic_wrapper rate_func fn_name)"
    by (simp add: RateLimiter_dynamic_def)
  show ?thesis
    using two lim shared dyn parse_rate_examples parse_rate_bad_format [of s]
      parse_rate_error [of s e]
      limit_registered [of L s key_func_arg cost error_message scope fn_name L' wr]
      shared_limit_registered [of L s scope_name key_func_arg cost L' wr']
      dynamic_wrapper_parse_error [of L2 rate_func req e fn_name res now wall]
    by blast
qed

text \<open>
  Four malformed rate strings: two separators, a count that is no literal, a count
  followed by the separator U+001F (which \<^verbatim>\<open>str.strip\<close> would skip and \<^verbatim>\<open>int\<close> does not),
  and an unknown period; a route registered through \<^verbatim>\<open>limit\<close> and one through
  \<^verbatim>\<open>shared_limit\<close>, with \<^verbatim>\<open>"10/week"\<close> and with \<^verbatim>\<open>"10/minute"\<close>; and a route registered
  through \<^verbatim>\<open>dynamic\<close> whose rate function answers \<^verbatim>\<open>"10/week"\<close>.
\<close>

theorem parse_rate_registration_witness:
  "parse_rate ''1/2/m'' = Inl (ValueError Invalid_rate_format)
   \<and> parse_rate ''x/minute'' = Inl (ValueError Invalid_int_literal)
   \<and> parse_rate [CHR ''5'', CHR 0x1F, CHR ''/'', CHR ''s''] = Inl (ValueError Invalid_int_literal)
   \<and> parse_rate ''10/week'' = Inl (ValueError Unknown_time_period)
   \<and> parse_rate '' 1_0 / MINUTE '' = Inr (10, 60)
   \<and> RateLimiter_limit (RateLimiter_init (\<lambda>q :: string. q) ''sliding-window'' False True None)
        ''10/week'' None (Cost_const 1) None None ''app.handler''
       = Inl (ValueError Unknown_time_period)
   \<and> RateLimiter_shared_limit (RateLimiter_init (\<lambda>q :: string. q) ''sliding-window'' False True None)
        ''10/week'' ''group'' None (Cost_const 1)
       = Inl (ValueError Unknown_time_period)
   \<and> RateLimiter_limit (RateLimiter_init (\<lambda>q :: string. q) ''sliding-window'' False True None)
        ''10/minute'' None (Cost_const 1) None None ''app.handler''
       = Inr ((RateLimiter_init (\<lambda>q. q) ''sliding-window'' False True None)
                \<lparr>route_limits := [''app.handler'' \<mapsto> (10, 60, ''10/minute'')]\<rparr>,
              limit_wrapper 10 60 None (Cost_const 1) None ''app.handler'')
   \<and> RateLimiter_shared_limit (RateLimiter_init (\<lambda>q :: string. q) ''sliding-window'' False True None)
        ''10/minute'' ''group'' None (Cost_const 1)
       = Inr (RateLimiter_init (\<lambda>q. q) ''sliding-window'' False True None,
              shared_limit_wrapper 10 60 ''group'' None (Cost_const 1))
   \<and> dynamic_wrapper (\<lambda>q. ''10/week'') ''app.handler''
        (RateLimiter_init (\<lambda>q :: string. q) ''sliding-window'' False True None)
        ''10.0.0.1'' Response_init 0 0
       = Inl (ValueError Unknown_time_period)"
proof -
  let ?L = "RateLimiter_init (\<lambda>q :: string. q) ''sliding-window'' False True None"
  let ?L' = "?L\<lparr>route_limits := [''app.handler'' \<mapsto> (10, 60, ''10/minute'')]\<rparr>"
  let ?u = "[CHR ''5'', CHR 0x1F, CHR ''/'', CHR ''s'']"
  let ?wl = "limit_wrapper 10 60 None (Cost_const 1) None ''app.handler'' :: string wrapper"
  let ?ws = "shared_limit_wrapper 10 60 ''group'' None (Cost_const 1) :: string wrapper"
  have ev: "strip ''1/2/m'' = ''1/2/m''" "strip ''x/minute'' = ''x/minute''"
    "strip ''10/week'' = ''10/week''" "strip '' 1_0 / MINUTE '' = ''1_0 / MINUTE''"
    "py_int ''x'' = Inl (ValueError Invalid_int_literal)" "py_int ''10'' = Inr 10"
    "py_int ''1_0 '' = Inr 10"
    "map_of multipliers (lower (strip ''week'')) = None"
    "parse_rate ''10/minute'' = Inr (10, 60)"
    "enabled ?L"
    by (simp_all add: parse_rate_def strip_def isspace_def py_int_def int_strip_def int_space_def
        max_str_digits_def isdigit_def decimal_def digit_value_def lower_def lower_char_def
        multipliers_def RateLimiter_init_def Let_def)
  have up: "map_of multipliers (lower (strip '' MINUTE'')) = Some 60"
    by code_simp
  have sep: "strip ?u = ?u" "py_int [CHR ''5'', CHR 0x1F] = Inl (ValueError Invalid_int_literal)"
    by code_simp+
  have reg1: "RateLimiter_limit ?L ''10/minute'' None (Cost_const 1) None None ''app.handler''
      = Inr (?L', ?wl)"
    by (simp add: RateLimiter_limit_def ev RateLimiter_init_def Let_def)
  have reg2: "RateLimiter_shared_limit ?L ''10/minute'' ''group'' None (Cost_const 1)
      = Inr (?L, ?ws)"
    by (simp add: RateLimiter_shared_limit_def ev)
  note inst = parse_rate_registration
    [where L = ?L and key_func_arg = None and cost = "Cost_const 1" and error_message = None
       and scope = None and fn_name = "''app.handler''" and scope_name = "''group''"
       and L' = ?L' and wr = ?wl and wr' = ?ws and ?L2.0 = ?L and req = "''10.0.0.1''"
       and res = Response_init and now = 0 and wall = 0 and rate_func = "\<lambda>q. ''10/week''"]
  show ?thesis
    using inst [where s = "''1/2/m''" and a = "[]" and p = "[]"
                  and e = "ValueError Invalid_rate_format" and c = 0 and m = 0]
      inst [where s = "''x/minute''" and a = "''x''" and p = "''minute''"
              and e = "ValueError Invalid_int_literal" and c = 0 and m = 60]
      inst [where s = ?u and a = "[CHR ''5'', CHR 0x1F]" and p = "''s''"
              and e = "ValueError Invalid_int_literal" and c = 0 and m = 1]
      inst [where s = "''10/week''" and a = "''10''" and p = "''week''"
              and e = "ValueError Unknown_time_period" and c = 10 and m = 60]
      inst [where s = "'' 1_0 / MINUTE ''" and a = "''1_0 ''" and p = "'' MINUTE''"
              and e = "ValueError Invalid_rate_format" and c = 10 and m = 60]
      inst [where s = "''10/minute''" and a = "''10''" and p = "''minute''"
              and e = "ValueError Invalid_rate_format" and c = 10 and m = 60]
    by (simp add: ev up sep reg1 reg2)
qed

text \<open>
  The claim as stated has the failure raised at route registration and never when a
  request is served. Registering a route through \<^verbatim>\<open>dynamic\<close> with a rate function that
  answers \<^verbatim>\<open>"bogus"\<close> succeeds, and the wrapper raises the \<^verbatim>\<open>ValueError\<close> when it serves a
  request.
\<close>

theorem dynamic_parse_at_request_counterexample:
  "RateLimiter_dynamic (RateLimiter_init (\<lambda>q :: string. q) ''sliding-window'' True True None)
       (\<lambda>q. ''bogus'') ''app.handler''
     = Inr (RateLimiter_init (\<lambda>q. q) ''sliding-window'' True True None,
            dynamic_wrapper (\<lambda>q. ''bogus'') ''app.handler'')
   \<and> dynamic_wrapper (\<lambda>q. ''bogus'') ''app.handler''
       (RateLimiter_init (\<lambda>q :: string. q) ''sliding-window'' True True None)
       ''10.0.0.1'' Response_init 0 0
     = Inl (ValueError Invalid_rate_format)"
  by (simp add: RateLimiter_dynamic_def dynamic_wrapper_def RateLimiter_init_def
      parse_rate_def strip_def isspace_def Let_def)

section \<open>Properties of the request entry\<close>

lemma shutdown_status:
  "Response_status (set_header
      (Response_json Response_init (JObject [(''error'', JString ''Server is shutting down'')]) 503)
      ''Connection'' ''close'') = ''503 Service Unavailable''"
proof -
  have "str_int 503 = ''503''"
    by code_simp
  then show ?thesis
    by (simp add: set_header_def Response_json_def Response_init_def
        Response_status_def status_phrases_def)
qed

lemma shutdown_headers:
  "build_headers (set_header
      (Response_json Response_init (JObject [(''error'', JString ''Server is shutting down'')]) 503)
      ''Connection'' ''close'')
   = [(''Content-Type'', ''application/json; charset=utf-8''), (''Connection'', ''close'')]"
  by (simp add: set_header_def Response_json_def Response_init_def build_headers_def)

lemma shutdown_respond:
  "respond (set_header
      (Response_json Response_init (JObject [(''error'', JString ''Server is shutting down'')]) 503)
      ''Connection'' ''close'') start_response
   = ((if start_response ''503 Service Unavailable''
            [(''Content-Type'', ''application/json; charset=utf-8''), (''Connection'', ''close'')]
       then Inr (Wsgi
          \<lparr>reply_status = ''503 Service Unavailable'',
           reply_headers = [(''Content-Type'', ''application/json; charset=utf-8''),
                            (''Connection'', ''close'')],
           reply_body = Body_json (JObject [(''error'', JString ''Server is shutting down'')])\<rparr>)
       else Inl Server_error),
      Some (''503 Service Unavailable'',
            [(''Content-Type'', ''application/json; charset=utf-8''), (''Connection'', ''close'')]))"
  by (simp add: respond_def as_wsgi_def shutdown_status shutdown_headers)
    (simp add: set_header_def Response_json_def)

lemma Request_init_error:
  "Request_init environ = Inl e \<longleftrightarrow>
     (\<exists>s. environ ''CONTENT_LENGTH'' = Some s \<and> s \<noteq> [] \<and> py_int s = Inl e)"
  by (auto simp: Request_init_def split: option.splits sum.splits if_splits)

text \<open>
  Claim C8 (shutdown rejection), as amended. Take a request whose \<^verbatim>\<open>Request\<close> object can
  be built, that is whose \<^verbatim>\<open>CONTENT_LENGTH\<close> is absent, empty or an integer literal, and
  let it arrive while the shutting-down flag is set. Then the application hands the
  status \<open>503 Service Unavailable\<close> and the header \<open>Connection: close\<close> to
  \<^verbatim>\<open>start_response\<close> and, when the server accepts them, returns the JSON body, whatever the
  static files, the middlewares and the dispatcher are: none of them runs, and the state
  they work on is untouched. The request is counted: the in-flight counter is incremented
  on entry, before the flag is read, and decremented on exit, so that it has its old
  value after the call; this also holds when \<^verbatim>\<open>start_response\<close> raises. A request whose
  \<^verbatim>\<open>CONTENT_LENGTH\<close> is not an integer literal raises the \<^verbatim>\<open>ValueError\<close> of \<^verbatim>\<open>int\<close> before the
  counter and the flag are touched: it is neither counted nor answered, whatever the flag.
\<close>

theorem shutdown_rejection:
  "(shutting_down app \<longrightarrow> Request_init environ = Inr req \<longrightarrow>
      PhotonAPI_call serve_static stack dispatch start_response app environ u =
        \<lparr>outcome =
           (if start_response ''503 Service Unavailable''
                 [(''Content-Type'', ''application/json; charset=utf-8''),
                  (''Connection'', ''close'')]
            then Inr (Wsgi
               \<lparr>reply_status = ''503 Service Unavailable'',
                reply_headers = [(''Content-Type'', ''application/json; charset=utf-8''),
                                 (''Connection'', ''close'')],
                reply_body = Body_json (JObject [(''error'', JString ''Server is shutting down'')])\<rparr>)
            else Inl Server_error),
         started = Some (''503 Service Unavailable'',
                         [(''Content-Type'', ''application/json; charset=utf-8''),
                          (''Connection'', ''close'')]),
         app_after = app, state_after = u,
         counter_writes = [active_requests app + 1, active_requests app]\<rparr>)
   \<and> (Request_init environ = Inl e \<longrightarrow>
      PhotonAPI_call serve_static stack dispatch start_response app environ u =
        \<lparr>outcome = Inl e, started = None, app_after = app, state_after = u,
         counter_writes = []\<rparr>)
   \<and> (Request_init environ = Inl e \<longleftrightarrow>
        (\<exists>s. environ ''CONTENT_LENGTH'' = Some s \<and> s \<noteq> [] \<and> py_int s = Inl e))"
proof -
  have draining: "PhotonAPI_call serve_static stack dispatch start_response app environ u =
        \<lparr>outcome =
           (if start_response ''503 Service Unavailable''
                 [(''Content-Type'', ''application/json; charset=utf-8''),
                  (''Connection'', ''close'')]
            then Inr (Wsgi
               \<lparr>reply_status = ''503 Service Unavailable'',
                reply_headers = [(''Content-Type'', ''application/json; charset=utf-8''),
                                 (''Connection'', ''close'')],
                reply_body = Body_json (JObject [(''error'', JString ''Server is shutting down'')])\<rparr>)
            else Inl Server_error),
         started = Some (''503 Service Unavailable'',
                         [(''Content-Type'', ''application/json; charset=utf-8''),
                          (''Connection'', ''close'')]),
         app_after = app, state_after = u,
         counter_writes = [active_requests app + 1, active_requests app]\<rparr>"
    if "shutting_down app" "Request_init environ = Inr req"
    using that by (simp add: PhotonAPI_call_def shutdown_respond Let_def)
  have malformed: "PhotonAPI_call serve_static stack dispatch start_response app environ u =
        \<lparr>outcome = Inl e, started = None, app_after = app, state_after = u,
         counter_writes = []\<rparr>"
    if "Request_init environ = Inl e"
    using that by (simp add: PhotonAPI_call_def)
  show ?thesis
    using draining malformed Request_init_error [of environ e] by blast
qed

text \<open>
  A draining application with two requests in flight; the static files, the pipeline and
  the dispatcher of the witness would each leave a trace. The first request, with
  \<^verbatim>\<open>CONTENT_LENGTH\<close> 12, meets a server that accepts every header; the second, without
  \<^verbatim>\<open>CONTENT_LENGTH\<close>, meets a server that refuses hop-by-hop headers; the third has the
  \<^verbatim>\<open>CONTENT_LENGTH\<close> \<open>abc\<close>.
\<close>

theorem shutdown_rejection_witness:
  "PhotonAPI_call (\<lambda>req res. (True, set_header res ''X-Static'' ''yes''))
      [\<lambda>req res next_mw (r, u). next_mw (r, u @ [''middleware''])]
      (\<lambda>req res (r, u). (Other (), (r, u @ [''handler''])))
      (\<lambda>status hdrs. True)
      \<lparr>shutting_down = True, active_requests = 2\<rparr> [''CONTENT_LENGTH'' \<mapsto> ''12''] []
   = \<lparr>outcome = Inr (Wsgi
        \<lparr>reply_status = ''503 Service Unavailable'',
         reply_headers = [(''Content-Type'', ''application/json; charset=utf-8''),
                          (''Connection'', ''close'')],
         reply_body = Body_json (JObject [(''error'', JString ''Server is shutting down'')])\<rparr>),
      started = Some (''503 Service Unavailable'',
                      [(''Content-Type'', ''application/json; charset=utf-8''),
                       (''Connection'', ''close'')]),
      app_after = \<lparr>shutting_down = True, active_requests = 2\<rparr>, state_after = [],
      counter_writes = [3, 2]\<rparr>
   \<and> PhotonAPI_call (\<lambda>req res. (True, set_header res ''X-Static'' ''yes''))
      [\<lambda>req res next_mw (r, u). next_mw (r, u @ [''middleware''])]
      (\<lambda>req res (r, u). (Other (), (r, u @ [''handler''])))
      refuses_hop_by_hop
      \<lparr>shutting_down = True, active_requests = 2\<rparr> Map.empty []
   = \<lparr>outcome = Inl Server_error,
      started = Some (''503 Service Unavailable'',
                      [(''Content-Type'', ''application/json; charset=utf-8''),
                       (''Connection'', ''close'')]),
      app_after = \<lparr>shutting_down = True, active_requests = 2\<rparr>, state_after = [],
      counter_writes = [3, 2]\<rparr>
   \<and> PhotonAPI_call (\<lambda>req res. (True, set_header res ''X-Static'' ''yes''))
      [\<lambda>req res next_mw (r, u). next_mw (r, u @ [''middleware''])]
      (\<lambda>req res (r, u). (Other (), (r, u @ [''handler''])))
      (\<lambda>status hdrs. True)
      \<lparr>shutting_down = True, active_requests = 2\<rparr> [''CONTENT_LENGTH'' \<mapsto> ''abc''] []
   = \<lparr>outcome = Inl (ValueError Invalid_int_literal), started = None,
      app_after = \<lparr>shutting_down = True, active_requests = 2\<rparr>, state_after = [],
      counter_writes = []\<rparr>"
proof -
  have ints: "py_int ''12'' = Inr 12" "py_int ''abc'' = Inl (ValueError Invalid_int_literal)"
    by (simp_all add: py_int_def int_strip_def int_space_def max_str_digits_def isdigit_def
        decimal_def digit_value_def Let_def)
  have reqs:
    "\<exists>req. Request_init [''CONTENT_LENGTH'' \<mapsto> ''12''] = Inr req"
    "\<exists>req. Request_init Map.empty = Inr req"
    "Request_init [''CONTENT_LENGTH'' \<mapsto> ''abc''] = Inl (ValueError Invalid_int_literal)"
    by (simp_all add: Request_init_def ints)
  have refused: "\<not> refuses_hop_by_hop ''503 Service Unavailable''
      [(''Content-Type'', ''application/json; charset=utf-8''), (''Connection'', ''close'')]"
    by code_simp
  from reqs(1) obtain req1 where r1: "Request_init [''CONTENT_LENGTH'' \<mapsto> ''12''] = Inr req1" ..
  from reqs(2) obtain req2 where r2: "Request_init Map.empty = Inr req2" ..
  show ?thesis
    using shutdown_rejection
        [of "\<lparr>shutting_down = True, active_requests = 2\<rparr>" "[''CONTENT_LENGTH'' \<mapsto> ''12'']" req1
            "\<lambda>req res. (True, set_header res ''X-Static'' ''yes'')"
            "[\<lambda>req res next_mw (r, u). next_mw (r, u @ [''middleware''])]"
            "\<lambda>req res (r, u). (Other (), (r, u @ [''handler'']))"
            "\<lambda>status hdrs. True" "[]" "ValueError Invalid_int_literal"]
      shutdown_rejection
        [of "\<lparr>shutting_down = True, active_requests = 2\<rparr>" Map.empty req2
            "\<lambda>req res. (True, set_header res ''X-Static'' ''yes'')"
            "[\<lambda>req res next_mw (r, u). next_mw (r, u @ [''middleware''])]"
            "\<lambda>req res (r, u). (Other (), (r, u @ [''handler'']))"
            refuses_hop_by_hop "[]" "ValueError Invalid_int_literal"]
      shutdown_rejection
        [of "\<lparr>shutting_down = True, active_requests = 2\<rparr>" "[''CONTENT_LENGTH'' \<mapsto> ''abc'']" req1
            "\<lambda>req res. (True, set_header res ''X-Static'' ''yes'')"
            "[\<lambda>req res next_mw (r, u). next_mw (r, u @ [''middleware''])]"
            "\<lambda>req res (r, u). (Other (), (r, u @ [''handler'']))"
            "\<lambda>status hdrs. True" "[]" "ValueError Invalid_int_literal"]
    by (simp add: r1 r2 reqs(3) refused)
qed

text \<open>
  The claim as stated has the rejected request not counted in the in-flight counter.
  \<^verbatim>\<open>__call__\<close> increments the counter before it reads the flag: with no request in flight,
  the counter is 1 while the 503 response is built, and 0 again after the \<^verbatim>\<open>finally\<close>
  clause.
\<close>

theorem shutdown_counted_counterexample:
  "counter_writes
     (PhotonAPI_call (\<lambda>req res. (False, res)) []
        (\<lambda>req res (r, u). (Other (), (r, u)))
        (\<lambda>status hdrs. True)
        \<lparr>shutting_down = True, active_requests = 0\<rparr> Map.empty ())
   = [1, 0]"
  by (simp add: PhotonAPI_call_def Request_init_def respond_def Let_def)

text \<open>
  Under a server that refuses hop-by-hop headers the rejection itself fails: the
  streaming path of \<^verbatim>\<open>__call__\<close> filters these headers, the shutdown path sets one, and
  \<^verbatim>\<open>start_response\<close> raises for every request that arrives while the flag is set.
\<close>

lemma shutdown_under_strict_server:
  assumes "shutting_down app" "Request_init environ = Inr req"
  shows "outcome (PhotonAPI_call serve_static stack dispatch refuses_hop_by_hop app environ u)
         = Inl Server_error"
proof -
  have "\<not> refuses_hop_by_hop ''503 Service Unavailable''
      [(''Content-Type'', ''application/json; charset=utf-8''), (''Connection'', ''close'')]"
    by code_simp
  then show ?thesis
    using assms by (simp add: PhotonAPI_call_def shutdown_respond Let_def)
qed

lemma accepting_request_example:
  "PhotonAPI_call (\<lambda>req res. (False, res))
      [\<lambda>req res next_mw (r, u). next_mw (r, u @ [''middleware''])]
      (\<lambda>req res (r, u). (Other (), (r, u @ [''handler''])))
      (\<lambda>status hdrs. True)
      \<lparr>shutting_down = False, active_requests = 2\<rparr> Map.empty []
   = \<lparr>outcome = map_sum id Wsgi (as_wsgi Response_init (\<lambda>status hdrs. True)),
      started = Some (Response_status Response_init, build_headers Response_init),
      app_after = \<lparr>shutting_down = False, active_requests = 2\<rparr>,
      state_after = [''middleware'', ''handler''],
      counter_writes = [3, 2]\<rparr>"
  by (simp add: PhotonAPI_call_def Request_init_def respond_def run_foldr Let_def)

end
